theory Spec2Isabelle
  imports Complex_Main "HOL-Library.Multiset"
begin

section \<open>Dashboard conversion cost analysis\<close>

text \<open>
  A shallow embedding of the two analysis scripts \<^verbatim>\<open>dash_analysis.py\<close> and
  \<^verbatim>\<open>dash_cat_analysis.py\<close>. Both load three spreadsheets, join them, apply a
  multi-factor cost formula column by column and sum the columns.

  Scope of the model.
  \<^item> A numeric cell is an exact real number or NaN: \<open>None\<close> is NaN, the marker pandas uses
    for a missing value. Arithmetic and sums are those of the reals: a value the script
    computes in doubles agrees with the model's up to rounding, and nothing here speaks of
    the last bits of a float.
  \<^item> The page column is read through \<^verbatim>\<open>pd.to_numeric\<close>, which can turn a text into an
    infinite float; its values are finite, NaN or infinite.
  \<^item> A text cell is a string or missing (\<open>None\<close>). A string is a sequence of code points
    below 256; the normalisation functions follow Python on that range.
  \<^item> The tables are typed as the spreadsheets' columns are: text columns hold text cells,
    numeric columns hold numeric cells, the page column holds any cell.
  \<^item> The plots, the image files and the printed summary are not modelled.
\<close>

subsection \<open>Cells and errors\<close>

type_synonym num = "real option"

type_synonym str = "string option"

datatype cell = Blank | Text string | Number real

text \<open>A Python float as \<^verbatim>\<open>pd.to_numeric\<close> can produce it.\<close>

datatype pyfloat = NaN | Fin real | PInf | NInf

datatype error =
    FileNotFoundError string
  | KeyError string
  | AttributeError
  | InvalidIndexError
  | OverflowError

definition bind :: "error + 'a \<Rightarrow> ('a \<Rightarrow> error + 'b) \<Rightarrow> error + 'b" where
  "bind m f = (case m of Inl e \<Rightarrow> Inl e | Inr x \<Rightarrow> f x)"

text \<open>Arithmetic on float cells: NaN in either operand gives NaN.\<close>

definition mul :: "num \<Rightarrow> num \<Rightarrow> num" where
  "mul a b = (case a of None \<Rightarrow> None | Some x \<Rightarrow> (case b of None \<Rightarrow> None | Some y \<Rightarrow> Some (x * y)))"

definition add :: "num \<Rightarrow> num \<Rightarrow> num" where
  "add a b = (case a of None \<Rightarrow> None | Some x \<Rightarrow> (case b of None \<Rightarrow> None | Some y \<Rightarrow> Some (x + y)))"

definition div_by :: "num \<Rightarrow> real \<Rightarrow> num" where
  "div_by a d = (case a of None \<Rightarrow> None | Some x \<Rightarrow> Some (x / d))"

subsection \<open>Strings\<close>

text \<open>
  \<^verbatim>\<open>str.strip()\<close> and \<^verbatim>\<open>str.lower()\<close>. Below 256 Python's whitespace is the tab to
  carriage return range, the four separators from 0x1C, the space, the next-line control
  0x85 and the no-break space 0xA0; the capital letters are A to Z and the Latin-1 capitals
  0xC0 to 0xDE without the multiplication sign 0xD7, each 32 below its small letter.
\<close>

definition isspace :: "char \<Rightarrow> bool" where
  "isspace c = (c \<in> set [CHR 0x09, CHR 0x0A, CHR 0x0B, CHR 0x0C, CHR 0x0D,
                          CHR 0x1C, CHR 0x1D, CHR 0x1E, CHR 0x1F, CHR 0x20,
                          CHR 0x85, CHR 0xA0])"

definition capitals :: string where
  "capitals = ''ABCDEFGHIJKLMNOPQRSTUVWXYZ'' @
     [CHR 0xC0, CHR 0xC1, CHR 0xC2, CHR 0xC3, CHR 0xC4, CHR 0xC5, CHR 0xC6, CHR 0xC7,
      CHR 0xC8, CHR 0xC9, CHR 0xCA, CHR 0xCB, CHR 0xCC, CHR 0xCD, CHR 0xCE, CHR 0xCF,
      CHR 0xD0, CHR 0xD1, CHR 0xD2, CHR 0xD3, CHR 0xD4, CHR 0xD5, CHR 0xD6,
      CHR 0xD8, CHR 0xD9, CHR 0xDA, CHR 0xDB, CHR 0xDC, CHR 0xDD, CHR 0xDE]"

definition smalls :: string where
  "smalls = ''abcdefghijklmnopqrstuvwxyz'' @
     [CHR 0xE0, CHR 0xE1, CHR 0xE2, CHR 0xE3, CHR 0xE4, CHR 0xE5, CHR 0xE6, CHR 0xE7,
      CHR 0xE8, CHR 0xE9, CHR 0xEA, CHR 0xEB, CHR 0xEC, CHR 0xED, CHR 0xEE, CHR 0xEF,
      CHR 0xF0, CHR 0xF1, CHR 0xF2, CHR 0xF3, CHR 0xF4, CHR 0xF5, CHR 0xF6,
      CHR 0xF8, CHR 0xF9, CHR 0xFA, CHR 0xFB, CHR 0xFC, CHR 0xFD, CHR 0xFE]"

definition strip :: "string \<Rightarrow> string" where
  "strip s = rev (dropWhile isspace (rev (dropWhile isspace s)))"

definition lower_char :: "char \<Rightarrow> char" where
  "lower_char c =
     (case map_of (zip capitals smalls) c of
        None \<Rightarrow> c
      | Some l \<Rightarrow> l)"

definition lower :: "string \<Rightarrow> string" where
  "lower s = map lower_char s"

text \<open>
  The \<^verbatim>\<open>.str\<close> accessor applies a string method to every string of a text column and
  leaves a missing cell missing.
\<close>

definition str_strip :: "str list \<Rightarrow> str list" where
  "str_strip col = map (map_option strip) col"

definition str_lower :: "str list \<Rightarrow> str list" where
  "str_lower col = map (map_option lower) col"

text \<open>\<^verbatim>\<open>astype(str)\<close> turns a missing cell into the string \<^verbatim>\<open>nan\<close>.\<close>

definition astype_str :: "str list \<Rightarrow> str list" where
  "astype_str col = map (\<lambda>c. case c of None \<Rightarrow> Some ''nan'' | Some s \<Rightarrow> Some s) col"

subsection \<open>Dictionaries and series\<close>

text \<open>\<^verbatim>\<open>d.get(k, default)\<close>.\<close>

definition dict_get :: "('k \<rightharpoonup> 'v) \<Rightarrow> 'k \<Rightarrow> 'v \<Rightarrow> 'v" where
  "dict_get d k dflt = (case d k of None \<Rightarrow> dflt | Some v \<Rightarrow> v)"

text \<open>
  \<^verbatim>\<open>Series.to_dict()\<close> of a series given by its index and its values: the pairs are
  inserted in order, so a later duplicate of a key overwrites an earlier one.
\<close>

definition to_dict :: "'k list \<Rightarrow> 'v list \<Rightarrow> ('k \<rightharpoonup> 'v)" where
  "to_dict index vals = foldl (\<lambda>d (k, v). d(k \<mapsto> v)) Map.empty (zip index vals)"

text \<open>
  \<^verbatim>\<open>Series.map(lookup)\<close> with a series as the lookup table: the table's index must be
  unique, otherwise pandas raises; a value that is not in the index maps to NaN.
\<close>

definition map_series :: "str list \<Rightarrow> str list \<Rightarrow> num list \<Rightarrow> error + num list" where
  "map_series col index vals =
     (if distinct index
      then Inr (map (\<lambda>k. case map_of (zip index vals) k of None \<Rightarrow> None | Some v \<Rightarrow> v) col)
      else Inl InvalidIndexError)"

text \<open>\<^verbatim>\<open>Series.map(d)\<close> with a dictionary: a value that is not a key maps to NaN.\<close>

definition map_dict :: "str list \<Rightarrow> (string \<rightharpoonup> real) \<Rightarrow> num list" where
  "map_dict col d = map (\<lambda>c. case c of None \<Rightarrow> None | Some s \<Rightarrow> d s) col"

text \<open>
  \<^verbatim>\<open>Series.apply(f)\<close> calls a function that returns a float on the cells in order; the
  first call that raises ends it.
\<close>

fun apply_col :: "('a \<Rightarrow> error + real) \<Rightarrow> 'a list \<Rightarrow> error + num list" where
  "apply_col f [] = Inr []"
| "apply_col f (x # xs) =
     bind (f x) (\<lambda>y. bind (apply_col f xs) (\<lambda>ys. Inr (Some y # ys)))"

text \<open>Column arithmetic is elementwise; a column times a scalar multiplies every cell.\<close>

definition col_mul :: "num list \<Rightarrow> num list \<Rightarrow> num list" where
  "col_mul xs ys = map2 mul xs ys"

definition col_add :: "num list \<Rightarrow> num list \<Rightarrow> num list" where
  "col_add xs ys = map2 add xs ys"

definition col_div :: "num list \<Rightarrow> real \<Rightarrow> num list" where
  "col_div xs d = map (\<lambda>x. div_by x d) xs"

definition col_scale :: "num list \<Rightarrow> num \<Rightarrow> num list" where
  "col_scale xs r = map (\<lambda>x. mul x r) xs"

text \<open>
  \<^verbatim>\<open>Series.sum()\<close> skips NaN (\<^verbatim>\<open>skipna=True\<close>) and is 0 on an empty column. The sum
  is that of the reals, taken here from the first row on; the order in which numpy adds the
  doubles and what it rounds are not modelled.
\<close>

definition sum_skipna :: "num list \<Rightarrow> real" where
  "sum_skipna col = foldl (\<lambda>acc x. case x of None \<Rightarrow> acc | Some v \<Rightarrow> acc + v) 0 col"

text \<open>
  The reading of a text as a number is a parameter \<open>parse\<close> of a run: the float that
  pandas reads the text as (an infinity for \<^verbatim>\<open>inf\<close>), and NaN for a text that is not
  numeric.

  \<^verbatim>\<open>pd.to_numeric(errors="coerce")\<close>: a number stays, a blank is NaN, a text is parsed.
\<close>

definition to_numeric :: "(string \<Rightarrow> pyfloat) \<Rightarrow> cell list \<Rightarrow> pyfloat list" where
  "to_numeric parse col =
     map (\<lambda>c. case c of Blank \<Rightarrow> NaN | Number x \<Rightarrow> Fin x | Text s \<Rightarrow> parse s) col"

text \<open>
  \<^verbatim>\<open>read_excel\<close> infers the type of a column: a column with rows, each of whose cells
  is blank or numeric (a text cell whose text reads as a number stands for a number cell
  too), is read as a column of floats, not of strings. Columns of truth values and of dates
  are outside the model.
\<close>

definition numeric_dtype :: "(string \<Rightarrow> pyfloat) \<Rightarrow> str list \<Rightarrow> bool" where
  "numeric_dtype parse col =
     (col \<noteq> [] \<and> list_all (\<lambda>c. case c of None \<Rightarrow> True | Some s \<Rightarrow> parse s \<noteq> NaN) col)"

text \<open>
  The \<^verbatim>\<open>.str\<close> accessor raises on a column of floats; \<open>numeric\<close> says whether the column
  was read as one.
\<close>

definition str_accessor :: "bool \<Rightarrow> str list \<Rightarrow> error + str list" where
  "str_accessor numeric col = (if numeric then Inl AttributeError else Inr col)"

subsection \<open>The three spreadsheets\<close>

text \<open>
  One record per sheet row, one field per column the scripts use, named by the header
  after \<^verbatim>\<open>columns.str.strip().str.lower()\<close>.
\<close>

record catalog_row =
  dashboard_name :: str
  data_visualization_tool :: str
  estimated_conversion_level :: str
  available_data_pages :: cell
  catalog_status :: str

record effort_row =
  effort_conversion_level :: str
  conversion_rate_hrs :: num
  junior_analyst_efforts :: num
  manager_efforts :: num

record rate_row =
  position :: str
  hourly_rates :: num

text \<open>
  A file holds one sheet, of the kind its header row gives it: the columns of the catalog,
  of the effort levels or of the hourly rates.
\<close>

datatype sheet =
    Catalog "catalog_row list"
  | Effort "effort_row list"
  | Rates "rate_row list"

text \<open>
  \<^verbatim>\<open>pd.read_excel\<close> with its default \<^verbatim>\<open>keep_default_na=True\<close> reads a text cell
  whose content is one of the default NA strings of pandas 2, the empty string among them,
  as missing. The numeric cells are read as they are.
\<close>

definition na_values :: "string list" where
  "na_values = [''-1.#IND'', ''1.#QNAN'', ''1.#IND'', ''-1.#QNAN'', ''#N/A N/A'', ''#N/A'',
                ''N/A'', ''n/a'', ''NA'', ''<NA>'', ''#NA'', ''NULL'', ''null'', ''NaN'',
                ''-NaN'', ''nan'', ''-nan'', ''None'', []]"

definition na_str :: "str \<Rightarrow> str" where
  "na_str c = (case c of None \<Rightarrow> None | Some s \<Rightarrow> if s \<in> set na_values then None else Some s)"

definition na_cell :: "cell \<Rightarrow> cell" where
  "na_cell c = (case c of Text s \<Rightarrow> if s \<in> set na_values then Blank else Text s | _ \<Rightarrow> c)"

definition na_catalog_row :: "catalog_row \<Rightarrow> catalog_row" where
  "na_catalog_row r =
     \<lparr>dashboard_name = na_str (dashboard_name r),
      data_visualization_tool = na_str (data_visualization_tool r),
      estimated_conversion_level = na_str (estimated_conversion_level r),
      available_data_pages = na_cell (available_data_pages r),
      catalog_status = na_str (catalog_status r)\<rparr>"

definition na_effort_row :: "effort_row \<Rightarrow> effort_row" where
  "na_effort_row r = r\<lparr>effort_conversion_level := na_str (effort_conversion_level r)\<rparr>"

definition na_rate_row :: "rate_row \<Rightarrow> rate_row" where
  "na_rate_row r = r\<lparr>position := na_str (position r)\<rparr>"

definition na_sheet :: "sheet \<Rightarrow> sheet" where
  "na_sheet sh =
     (case sh of
        Catalog rows \<Rightarrow> Catalog (map na_catalog_row rows)
      | Effort rows \<Rightarrow> Effort (map na_effort_row rows)
      | Rates rows \<Rightarrow> Rates (map na_rate_row rows))"

text \<open>The files of the working directory, by name; a missing file is a fatal error.\<close>

type_synonym files = "string \<rightharpoonup> sheet"

definition read_excel :: "files \<Rightarrow> string \<Rightarrow> error + sheet" where
  "read_excel fs name =
     (case fs name of None \<Rightarrow> Inl (FileNotFoundError name) | Some sh \<Rightarrow> Inr (na_sheet sh))"

text \<open>
  Selecting a column that the sheet does not have raises \<^verbatim>\<open>KeyError\<close>: a sheet of
  another kind has none of the expected columns.
\<close>

definition catalog_rows :: "sheet \<Rightarrow> error + catalog_row list" where
  "catalog_rows sh = (case sh of Catalog rows \<Rightarrow> Inr rows | _ \<Rightarrow> Inl (KeyError ''dashboard name''))"

definition effort_rows :: "sheet \<Rightarrow> error + effort_row list" where
  "effort_rows sh = (case sh of Effort rows \<Rightarrow> Inr rows | _ \<Rightarrow> Inl (KeyError ''conversion level''))"

definition rate_rows :: "sheet \<Rightarrow> error + rate_row list" where
  "rate_rows sh = (case sh of Rates rows \<Rightarrow> Inr rows | _ \<Rightarrow> Inl (KeyError ''position''))"

subsection \<open>Page multiplier\<close>

text \<open>Python's \<^verbatim>\<open>int\<close> on a float truncates towards zero.\<close>

definition py_int :: "real \<Rightarrow> int" where
  "py_int x = (if 0 \<le> x then \<lfloor>x\<rfloor> else \<lceil>x\<rceil>)"

definition scale :: "int \<rightharpoonup> real" where
  "scale = [1 \<mapsto> 1.00, 2 \<mapsto> 1.05, 3 \<mapsto> 1.10, 4 \<mapsto> 1.15, 5 \<mapsto> 1.20,
            6 \<mapsto> 1.25, 7 \<mapsto> 1.30, 8 \<mapsto> 1.35, 9 \<mapsto> 1.40, 10 \<mapsto> 1.45]"

text \<open>
  \<^verbatim>\<open>pd.isna\<close> is true of NaN only, so an infinite page count reaches \<^verbatim>\<open>int(pages)\<close>,
  which raises \<^verbatim>\<open>OverflowError\<close> on it.
\<close>

definition page_multiplier :: "pyfloat \<Rightarrow> error + real" where
  "page_multiplier pages =
     (case pages of
        NaN \<Rightarrow> Inr 1.0
      | Fin p \<Rightarrow> (let pages = min (py_int p) 10 in Inr (dict_get scale pages 1.0))
      | PInf \<Rightarrow> Inl OverflowError
      | NInf \<Rightarrow> Inl OverflowError)"

text \<open>The second script defines the same function again.\<close>

definition page_multiplier_cat :: "pyfloat \<Rightarrow> error + real" where
  "page_multiplier_cat pages =
     (case pages of
        NaN \<Rightarrow> Inr 1.0
      | Fin p \<Rightarrow> (let pages = min (py_int p) 10 in Inr (dict_get scale pages 1.0))
      | PInf \<Rightarrow> Inl OverflowError
      | NInf \<Rightarrow> Inl OverflowError)"

text \<open>
  The page factor as the specification words it, for a page count that is a number or
  missing: floor, cap at ten, linear table.
\<close>

definition spec_page_factor :: "num \<Rightarrow> real" where
  "spec_page_factor pages =
     (case pages of
        None \<Rightarrow> 1.0
      | Some p \<Rightarrow>
          (let effective_pages = min \<lfloor>p\<rfloor> 10
           in if 1 \<le> effective_pages \<and> effective_pages \<le> 10
              then 1.0 + 0.05 * (of_int effective_pages - 1)
              else 1.0))"

subsection \<open>Status multiplier\<close>

definition status_multiplier :: "string \<rightharpoonup> real" where
  "status_multiplier = [''active'' \<mapsto> 1.0, ''in progress'' \<mapsto> 1.1, ''broken'' \<mapsto> 1.3]"

subsection \<open>The dashboard frame\<close>

text \<open>
  The frame is a record of columns. The page column changes type along the script (any
  cell before \<^verbatim>\<open>to_numeric\<close>, a float after), so the record is polymorphic in it.
\<close>

record 'p frame =
  dashboard :: "str list"
  tool :: "str list"
  conversion_level :: "str list"
  pages :: "'p list"
  status :: "str list"

record cost_frame = "pyfloat frame" +
  base_hours :: "num list"
  junior_pct :: "num list"
  manager_pct :: "num list"
  page_factor :: "num list"
  status_factor :: "num list"
  adjusted_hours :: "num list"
  jr_hours :: "num list"
  mgr_hours :: "num list"
  jr_cost :: "num list"
  mgr_cost :: "num list"
  total_cost :: "num list"

text \<open>\<^verbatim>\<open>dropna(subset=["dashboard name", "estimated conversion level"])\<close>.\<close>

definition dropna :: "catalog_row list \<Rightarrow> catalog_row list" where
  "dropna rows =
     filter (\<lambda>r. \<not> (dashboard_name r = None \<or> estimated_conversion_level r = None)) rows"

text \<open>\<^verbatim>\<open>rename(columns={...})\<close>: the same cells under the canonical column names.\<close>

definition rename :: "catalog_row list \<Rightarrow> cell frame" where
  "rename rows =
     \<lparr>dashboard = map dashboard_name rows,
      tool = map data_visualization_tool rows,
      conversion_level = map estimated_conversion_level rows,
      pages = map available_data_pages rows,
      status = map catalog_status rows\<rparr>"

text \<open>
  Lines 17 to 26 of both scripts: filter, rename, normalise the cells. The level column
  keeps through \<^verbatim>\<open>dropna\<close> the type it was read with, so \<^verbatim>\<open>.str\<close> raises on a level
  column read as floats even when no row is left. The status column is made of strings by
  \<^verbatim>\<open>astype(str)\<close> first.
\<close>

definition clean_dashboard ::
  "(string \<Rightarrow> pyfloat) \<Rightarrow> catalog_row list \<Rightarrow> error + pyfloat frame" where
  "clean_dashboard parse dashboard_df =
     (let numeric = numeric_dtype parse (map estimated_conversion_level dashboard_df);
          dashboard_df = dropna dashboard_df;
          dashboard_df = rename dashboard_df
      in bind (str_accessor numeric (conversion_level dashboard_df)) (\<lambda>levels.
         let dashboard_df = dashboard_df\<lparr>conversion_level := str_lower (str_strip levels)\<rparr>;
             dashboard_df = dashboard_df
               \<lparr>status := str_lower (str_strip (astype_str (status dashboard_df)))\<rparr>
         in Inr \<lparr>dashboard = dashboard dashboard_df,
                 tool = tool dashboard_df,
                 conversion_level = conversion_level dashboard_df,
                 pages = to_numeric parse (pages dashboard_df),
                 status = status dashboard_df\<rparr>))"

text \<open>
  Lines 29 to 33: the level column of the effort table is normalised through \<^verbatim>\<open>.str\<close>,
  which raises when the column was read as floats, and three columns are mapped through
  it as the index.
\<close>

definition map_effort_levels ::
  "(string \<Rightarrow> pyfloat) \<Rightarrow> effort_row list \<Rightarrow> str list
     \<Rightarrow> error + (num list \<times> num list \<times> num list)" where
  "map_effort_levels parse effort_levels_df col =
     (let levels = map effort_conversion_level effort_levels_df
      in bind (str_accessor (numeric_dtype parse levels) levels) (\<lambda>levels.
         let index = str_lower (str_strip levels)
         in bind (map_series col index (map conversion_rate_hrs effort_levels_df)) (\<lambda>base_hours.
            bind (map_series col index (map junior_analyst_efforts effort_levels_df)) (\<lambda>junior_pct.
            bind (map_series col index (map manager_efforts effort_levels_df)) (\<lambda>manager_pct.
            Inr (base_hours, junior_pct, manager_pct))))))"

text \<open>What a run computes: the frame, the two rates and the totals.\<close>

record analysis =
  dashboard_df :: cost_frame
  jr_rate :: num
  mgr_rate :: num
  total_hours :: real
  total_jr_cost :: real
  total_mgr_cost :: real
  contractor_total_cost :: num

record cat_analysis = analysis +
  all_jr_cost :: num

subsection \<open>The two scripts\<close>

text \<open>
  \<^verbatim>\<open>dash_analysis.py\<close> after the three sheets are loaded: the statements in the
  script's order, each column a local value, the first error ending the run. A primed name
  is the script's variable or column of that name; the unprimed name is the field of the
  result that holds it.
\<close>

definition dash_analysis_body ::
  "(string \<Rightarrow> pyfloat) \<Rightarrow> sheet \<Rightarrow> sheet \<Rightarrow> sheet \<Rightarrow> error + analysis" where
  "dash_analysis_body parse dashboard_sheet effort_sheet rates_sheet =
     bind (catalog_rows dashboard_sheet) (\<lambda>catalog.
     bind (clean_dashboard parse catalog) (\<lambda>df.
     bind (effort_rows effort_sheet) (\<lambda>effort_levels_df.
     bind (map_effort_levels parse effort_levels_df (conversion_level df))
       (\<lambda>(base_hours', junior_pct', manager_pct').
     bind (apply_col page_multiplier (pages df)) (\<lambda>page_factor'.
     let status_factor' = map_dict (status df) status_multiplier;
         adjusted_hours' = col_mul (col_mul base_hours' page_factor') status_factor';
         jr_hours' = col_mul adjusted_hours' (col_div junior_pct' 100);
         mgr_hours' = col_mul adjusted_hours' (col_div manager_pct' 100) in
     bind (rate_rows rates_sheet) (\<lambda>hourly_rates_df.
     let rates = to_dict (map position hourly_rates_df) (map hourly_rates hourly_rates_df);
         jr_rate' = dict_get rates (Some ''Junior Analyst'') (Some 0);
         mgr_rate' = dict_get rates (Some ''Manager'') (Some 0);
         jr_cost' = col_scale jr_hours' jr_rate';
         mgr_cost' = col_scale mgr_hours' mgr_rate';
         total_cost' = col_add jr_cost' mgr_cost';
         total_hours' = sum_skipna adjusted_hours';
         total_jr_cost' = sum_skipna jr_cost';
         total_mgr_cost' = sum_skipna mgr_cost';
         contractor_rate = 43;
         contractor_total_cost' = total_hours' * contractor_rate
     in Inr \<lparr>dashboard_df =
               \<lparr>dashboard = dashboard df, tool = tool df,
                conversion_level = conversion_level df, pages = pages df, status = status df,
                base_hours = base_hours', junior_pct = junior_pct', manager_pct = manager_pct',
                page_factor = page_factor', status_factor = status_factor',
                adjusted_hours = adjusted_hours', jr_hours = jr_hours', mgr_hours = mgr_hours',
                jr_cost = jr_cost', mgr_cost = mgr_cost', total_cost = total_cost'\<rparr>,
             jr_rate = jr_rate', mgr_rate = mgr_rate',
             total_hours = total_hours', total_jr_cost = total_jr_cost',
             total_mgr_cost = total_mgr_cost',
             contractor_total_cost = Some contractor_total_cost'\<rparr>))))))"

definition dash_analysis :: "(string \<Rightarrow> pyfloat) \<Rightarrow> files \<Rightarrow> error + analysis" where
  "dash_analysis parse fs =
     bind (read_excel fs ''dashboard_catalog.xlsx'') (\<lambda>dashboard_sheet.
     bind (read_excel fs ''effort_levels.xlsx'') (\<lambda>effort_sheet.
     bind (read_excel fs ''hourly_rates.xlsx'') (\<lambda>rates_sheet.
     dash_analysis_body parse dashboard_sheet effort_sheet rates_sheet)))"

text \<open>
  \<^verbatim>\<open>dash_cat_analysis.py\<close>: the role totals come before the total of hours, and the
  single-rate scenario charges all hours at the junior analyst's rate.
\<close>

definition dash_cat_analysis_body ::
  "(string \<Rightarrow> pyfloat) \<Rightarrow> sheet \<Rightarrow> sheet \<Rightarrow> sheet \<Rightarrow> error + cat_analysis" where
  "dash_cat_analysis_body parse dashboard_sheet effort_sheet rates_sheet =
     bind (catalog_rows dashboard_sheet) (\<lambda>catalog.
     bind (clean_dashboard parse catalog) (\<lambda>df.
     bind (effort_rows effort_sheet) (\<lambda>effort_levels_df.
     bind (map_effort_levels parse effort_levels_df (conversion_level df))
       (\<lambda>(base_hours', junior_pct', manager_pct').
     bind (apply_col page_multiplier_cat (pages df)) (\<lambda>page_factor'.
     let status_factor' = map_dict (status df) status_multiplier;
         adjusted_hours' = col_mul (col_mul base_hours' page_factor') status_factor';
         jr_hours' = col_mul adjusted_hours' (col_div junior_pct' 100);
         mgr_hours' = col_mul adjusted_hours' (col_div manager_pct' 100) in
     bind (rate_rows rates_sheet) (\<lambda>hourly_rates_df.
     let rates = to_dict (map position hourly_rates_df) (map hourly_rates hourly_rates_df);
         jr_rate' = dict_get rates (Some ''Junior Analyst'') (Some 0);
         mgr_rate' = dict_get rates (Some ''Manager'') (Some 0);
         jr_cost' = col_scale jr_hours' jr_rate';
         mgr_cost' = col_scale mgr_hours' mgr_rate';
         total_cost' = col_add jr_cost' mgr_cost';
         total_jr_cost' = sum_skipna jr_cost';
         total_mgr_cost' = sum_skipna mgr_cost';
         total_hours' = sum_skipna adjusted_hours';
         contractor_total_cost' = mul (Some total_hours') jr_rate';
         total_hours' = sum_skipna adjusted_hours';
         all_jr_cost' = mul (Some total_hours') jr_rate'
     in Inr \<lparr>dashboard_df =
               \<lparr>dashboard = dashboard df, tool = tool df,
                conversion_level = conversion_level df, pages = pages df, status = status df,
                base_hours = base_hours', junior_pct = junior_pct', manager_pct = manager_pct',
                page_factor = page_factor', status_factor = status_factor',
                adjusted_hours = adjusted_hours', jr_hours = jr_hours', mgr_hours = mgr_hours',
                jr_cost = jr_cost', mgr_cost = mgr_cost', total_cost = total_cost'\<rparr>,
             jr_rate = jr_rate', mgr_rate = mgr_rate',
             total_hours = total_hours', total_jr_cost = total_jr_cost',
             total_mgr_cost = total_mgr_cost',
             contractor_total_cost = contractor_total_cost',
             all_jr_cost = all_jr_cost'\<rparr>))))))"

definition dash_cat_analysis :: "(string \<Rightarrow> pyfloat) \<Rightarrow> files \<Rightarrow> error + cat_analysis" where
  "dash_cat_analysis parse fs =
     bind (read_excel fs ''dashboard_catalog.xlsx'') (\<lambda>dashboard_sheet.
     bind (read_excel fs ''effort_levels.xlsx'') (\<lambda>effort_sheet.
     bind (read_excel fs ''hourly_rates.xlsx'') (\<lambda>rates_sheet.
     dash_cat_analysis_body parse dashboard_sheet effort_sheet rates_sheet)))"

subsection \<open>Example tables\<close>

text \<open>
  A small catalog that exercises the branches of both scripts: a plain row, a row whose
  level and status need normalising and whose page count is above the cap, a row with an
  unknown status and no page count, and a row without a name.
\<close>

definition demo_catalog :: "catalog_row list" where
  "demo_catalog =
     [\<lparr>dashboard_name = Some ''Sales'', data_visualization_tool = Some ''Tableau'',
       estimated_conversion_level = Some ''medium'', available_data_pages = Number 3,
       catalog_status = Some ''active''\<rparr>,
      \<lparr>dashboard_name = Some ''Ops'', data_visualization_tool = Some ''Qlik'',
       estimated_conversion_level = Some '' High '', available_data_pages = Number 15,
       catalog_status = Some ''Broken''\<rparr>,
      \<lparr>dashboard_name = Some ''HR'', data_visualization_tool = None,
       estimated_conversion_level = Some ''low'', available_data_pages = Blank,
       catalog_status = Some ''unknown''\<rparr>,
      \<lparr>dashboard_name = None, data_visualization_tool = Some ''Tableau'',
       estimated_conversion_level = Some ''low'', available_data_pages = Number 2,
       catalog_status = Some ''active''\<rparr>]"

definition demo_effort :: "effort_row list" where
  "demo_effort =
     [\<lparr>effort_conversion_level = Some ''Medium'', conversion_rate_hrs = Some 10,
       junior_analyst_efforts = Some 70, manager_efforts = Some 30\<rparr>,
      \<lparr>effort_conversion_level = Some ''high'', conversion_rate_hrs = Some 20,
       junior_analyst_efforts = Some 60, manager_efforts = Some 60\<rparr>,
      \<lparr>effort_conversion_level = Some ''low'', conversion_rate_hrs = Some 5,
       junior_analyst_efforts = Some 100, manager_efforts = Some 0\<rparr>]"

definition demo_rates :: "rate_row list" where
  "demo_rates =
     [\<lparr>position = Some ''Junior Analyst'', hourly_rates = Some 50\<rparr>,
      \<lparr>position = Some ''Manager'', hourly_rates = Some 100\<rparr>]"

text \<open>
  The example as three files, the scenario of the specification as three files, a raw
  catalog with an empty name, and a rate table whose positions differ from the role names
  in case and in trailing whitespace.
\<close>

definition demo_files :: files where
  "demo_files =
     [''dashboard_catalog.xlsx'' \<mapsto> Catalog demo_catalog,
      ''effort_levels.xlsx'' \<mapsto> Effort demo_effort,
      ''hourly_rates.xlsx'' \<mapsto> Rates demo_rates]"

definition sales_files :: files where
  "sales_files =
     [''dashboard_catalog.xlsx'' \<mapsto>
        Catalog [\<lparr>dashboard_name = Some ''Sales'', data_visualization_tool = None,
                  estimated_conversion_level = Some ''medium'', available_data_pages = Number 3,
                  catalog_status = Some ''active''\<rparr>],
      ''effort_levels.xlsx'' \<mapsto>
        Effort [\<lparr>effort_conversion_level = Some ''medium'', conversion_rate_hrs = Some 10,
                 junior_analyst_efforts = Some 70, manager_efforts = Some 30\<rparr>],
      ''hourly_rates.xlsx'' \<mapsto>
        Rates [\<lparr>position = Some ''Junior Analyst'', hourly_rates = Some 50\<rparr>,
               \<lparr>position = Some ''Manager'', hourly_rates = Some 100\<rparr>]]"

definition raw_catalog :: "catalog_row list" where
  "raw_catalog =
     [\<lparr>dashboard_name = Some ''Sales'', data_visualization_tool = Some ''Tableau'',
       estimated_conversion_level = Some ''medium'', available_data_pages = Number 3,
       catalog_status = Some ''active''\<rparr>,
      \<lparr>dashboard_name = Some [], data_visualization_tool = Some ''Tableau'',
       estimated_conversion_level = Some ''low'', available_data_pages = Number 1,
       catalog_status = Some ''active''\<rparr>,
      \<lparr>dashboard_name = Some ''Ops'', data_visualization_tool = Some ''Qlik'',
       estimated_conversion_level = None, available_data_pages = Text ''n/a'',
       catalog_status = Some ''broken''\<rparr>]"

definition lowercase_rates :: "rate_row list" where
  "lowercase_rates =
     [\<lparr>position = Some ''junior analyst'', hourly_rates = Some 50\<rparr>,
      \<lparr>position = Some ''Manager '', hourly_rates = Some 100\<rparr>]"

text \<open>
  Two readings of text as numbers: one for sheets none of whose texts is numeric, and one
  that knows the two infinities besides. Then an effort table without the junior
  percentage of the medium level, and a catalog whose page cell is the text \<^verbatim>\<open>inf\<close>.
\<close>

definition plain_text :: "string \<Rightarrow> pyfloat" where
  "plain_text s = NaN"

definition inf_text :: "string \<Rightarrow> pyfloat" where
  "inf_text s = (if s = ''inf'' then PInf else if s = ''-inf'' then NInf else NaN)"

definition partial_effort :: "effort_row list" where
  "partial_effort =
     [\<lparr>effort_conversion_level = Some ''Medium'', conversion_rate_hrs = Some 10,
       junior_analyst_efforts = None, manager_efforts = Some 30\<rparr>,
      \<lparr>effort_conversion_level = Some ''high'', conversion_rate_hrs = Some 20,
       junior_analyst_efforts = Some 60, manager_efforts = Some 60\<rparr>,
      \<lparr>effort_conversion_level = Some ''low'', conversion_rate_hrs = Some 5,
       junior_analyst_efforts = Some 100, manager_efforts = Some 0\<rparr>]"

definition inf_catalog :: "catalog_row list" where
  "inf_catalog =
     [\<lparr>dashboard_name = Some ''Sales'', data_visualization_tool = Some ''Tableau'',
       estimated_conversion_level = Some ''medium'', available_data_pages = Text ''inf'',
       catalog_status = Some ''active''\<rparr>]"

text \<open>The run of \<^verbatim>\<open>dash_analysis.py\<close> on the example with that effort table.\<close>

definition partial_run :: "error + analysis" where
  "partial_run =
     dash_analysis_body plain_text (Catalog demo_catalog) (Effort partial_effort)
       (Rates demo_rates)"

section \<open>Properties\<close>

subsection \<open>Running a script\<close>

lemma bind_Inr_iff: "bind m f = Inr y \<longleftrightarrow> (\<exists>x. m = Inr x \<and> f x = Inr y)"
  by (cases m) (simp_all add: bind_def)

lemma bind_Inr [simp]: "bind (Inr x) f = f x"
  by (simp add: bind_def)

lemma bind_Inl [simp]: "bind (Inl e) f = Inl e"
  by (simp add: bind_def)

lemma catalog_rows_Inr: "catalog_rows s = Inr rows \<longleftrightarrow> s = Catalog rows"
  by (cases s) (simp_all add: catalog_rows_def)

lemma effort_rows_Inr: "effort_rows s = Inr rows \<longleftrightarrow> s = Effort rows"
  by (cases s) (simp_all add: effort_rows_def)

lemma rate_rows_Inr: "rate_rows s = Inr rows \<longleftrightarrow> s = Rates rows"
  by (cases s) (simp_all add: rate_rows_def)

lemma map_series_Inr:
  "map_series col index vals = Inr ys \<longleftrightarrow>
     distinct index \<and> ys = map (\<lambda>k. case map_of (zip index vals) k of None \<Rightarrow> None | Some v \<Rightarrow> v) col"
  by (auto simp: map_series_def)

lemma str_accessor_Inr: "str_accessor numeric col = Inr ys \<longleftrightarrow> \<not> numeric \<and> ys = col"
  by (auto simp: str_accessor_def)

lemma apply_col_Inr:
  "apply_col f xs = Inr ys \<longleftrightarrow>
     (\<forall>x \<in> set xs. \<exists>y. f x = Inr y) \<and> ys = map (\<lambda>x. Some (projr (f x))) xs"
proof (induction xs arbitrary: ys)
  case Nil
  then show ?case by auto
next
  case (Cons x xs)
  show ?case
  proof (cases "f x")
    case (Inl e)
    then show ?thesis by auto
  next
    case (Inr y)
    then show ?thesis
      by (auto simp: bind_Inr_iff Cons.IH)
  qed
qed

lemma clean_dashboard_Inr:
  "clean_dashboard parse cat = Inr df \<longleftrightarrow>
     \<not> numeric_dtype parse (map estimated_conversion_level cat) \<and>
     df = \<lparr>dashboard = map dashboard_name (dropna cat),
           tool = map data_visualization_tool (dropna cat),
           conversion_level =
             map (\<lambda>r. map_option lower (map_option strip (estimated_conversion_level r))) (dropna cat),
           pages = to_numeric parse (map available_data_pages (dropna cat)),
           status =
             map (\<lambda>r. map_option lower (map_option strip
                    (case catalog_status r of None \<Rightarrow> Some ''nan'' | Some s \<Rightarrow> Some s)))
               (dropna cat)\<rparr>"
  by (auto simp: clean_dashboard_def rename_def Let_def str_lower_def str_strip_def
      astype_str_def o_def bind_Inr_iff str_accessor_Inr)

lemma clean_dashboard_Inl:
  "clean_dashboard parse cat = Inl e \<longleftrightarrow>
     numeric_dtype parse (map estimated_conversion_level cat) \<and> e = AttributeError"
  by (auto simp: clean_dashboard_def Let_def str_accessor_def)

lemma map_effort_levels_Inr:
  "map_effort_levels parse eff col = Inr (bh, jp, mp) \<longleftrightarrow>
     (let index = str_lower (str_strip (map effort_conversion_level eff)) in
      \<not> numeric_dtype parse (map effort_conversion_level eff) \<and>
      distinct index \<and>
      map_series col index (map conversion_rate_hrs eff) = Inr bh \<and>
      map_series col index (map junior_analyst_efforts eff) = Inr jp \<and>
      map_series col index (map manager_efforts eff) = Inr mp)"
  by (auto simp: map_effort_levels_def Let_def bind_Inr_iff map_series_Inr str_accessor_Inr)

lemma map_effort_levels_succeeds:
  "(\<exists>r. map_effort_levels parse eff col = Inr r) \<longleftrightarrow>
     \<not> numeric_dtype parse (map effort_conversion_level eff) \<and>
     distinct (str_lower (str_strip (map effort_conversion_level eff)))"
  by (auto simp: map_effort_levels_def Let_def bind_Inr_iff map_series_Inr str_accessor_Inr)

lemma body_Inr:
  assumes "dash_analysis_body parse s1 s2 s3 = Inr out"
  obtains cat eff rts df bh jp mp pf where
    "s1 = Catalog cat" "s2 = Effort eff" "s3 = Rates rts"
    "clean_dashboard parse cat = Inr df"
    "map_effort_levels parse eff (conversion_level df) = Inr (bh, jp, mp)"
    "apply_col page_multiplier (pages df) = Inr pf"
  using assms
  by (auto simp: dash_analysis_body_def Let_def bind_Inr_iff catalog_rows_Inr effort_rows_Inr
      rate_rows_Inr split: prod.splits)

lemma body_columns:
  assumes "dash_analysis_body parse s1 s2 s3 = Inr out"
  defines "df \<equiv> dashboard_df out"
  shows "apply_col page_multiplier (pages df) = Inr (page_factor df)"
    and "status_factor df = map_dict (status df) status_multiplier"
    and "adjusted_hours df = col_mul (col_mul (base_hours df) (page_factor df)) (status_factor df)"
    and "jr_hours df = col_mul (adjusted_hours df) (col_div (junior_pct df) 100)"
    and "mgr_hours df = col_mul (adjusted_hours df) (col_div (manager_pct df) 100)"
    and "jr_cost df = col_scale (jr_hours df) (jr_rate out)"
    and "mgr_cost df = col_scale (mgr_hours df) (mgr_rate out)"
    and "total_cost df = col_add (jr_cost df) (mgr_cost df)"
    and "total_hours out = sum_skipna (adjusted_hours df)"
    and "total_jr_cost out = sum_skipna (jr_cost df)"
    and "total_mgr_cost out = sum_skipna (mgr_cost df)"
    and "contractor_total_cost out = Some (total_hours out * 43)"
  using assms(1) unfolding df_def
  by (auto simp: dash_analysis_body_def Let_def bind_Inr_iff split: prod.splits)

lemma col_mul_map: "col_mul (map f xs) (map g xs) = map (\<lambda>x. mul (f x) (g x)) xs"
  by (induction xs) (simp_all add: col_mul_def)

lemma col_div_map: "col_div (map f xs) d = map (\<lambda>x. div_by (f x) d) xs"
  by (simp add: col_div_def)

lemma col_scale_map: "col_scale (map f xs) r = map (\<lambda>x. mul (f x) r) xs"
  by (simp add: col_scale_def)

lemma body_base_columns:
  assumes "dash_analysis_body parse (Catalog cat) (Effort eff) s3 = Inr out"
  defines "df \<equiv> dashboard_df out"
  defines "index \<equiv> str_lower (str_strip (map effort_conversion_level eff))"
  shows "distinct index"
    and "dashboard df = map dashboard_name (dropna cat)"
    and "tool df = map data_visualization_tool (dropna cat)"
    and "conversion_level df =
          map (\<lambda>r. map_option lower (map_option strip (estimated_conversion_level r))) (dropna cat)"
    and "pages df = to_numeric parse (map available_data_pages (dropna cat))"
    and "status df =
          map (\<lambda>r. map_option lower (map_option strip
                 (case catalog_status r of None \<Rightarrow> Some ''nan'' | Some s \<Rightarrow> Some s)))
            (dropna cat)"
    and "base_hours df =
          map (\<lambda>k. case map_of (zip index (map conversion_rate_hrs eff)) k of
                      None \<Rightarrow> None | Some v \<Rightarrow> v) (conversion_level df)"
    and "junior_pct df =
          map (\<lambda>k. case map_of (zip index (map junior_analyst_efforts eff)) k of
                      None \<Rightarrow> None | Some v \<Rightarrow> v) (conversion_level df)"
    and "manager_pct df =
          map (\<lambda>k. case map_of (zip index (map manager_efforts eff)) k of
                      None \<Rightarrow> None | Some v \<Rightarrow> v) (conversion_level df)"
    and "\<not> numeric_dtype parse (map estimated_conversion_level cat)"
    and "\<not> numeric_dtype parse (map effort_conversion_level eff)"
  using assms(1) unfolding df_def index_def
  by (auto simp: dash_analysis_body_def Let_def bind_Inr_iff catalog_rows_def effort_rows_def
      map_effort_levels_Inr map_series_Inr clean_dashboard_Inr split: prod.splits)

lemma body_rates:
  assumes "dash_analysis_body parse s1 s2 (Rates rts) = Inr out"
  defines "rates \<equiv> to_dict (map position rts) (map hourly_rates rts)"
  shows "jr_rate out = dict_get rates (Some ''Junior Analyst'') (Some 0)"
    and "mgr_rate out = dict_get rates (Some ''Manager'') (Some 0)"
  using assms(1) unfolding rates_def
  by (auto simp: dash_analysis_body_def Let_def bind_Inr_iff rate_rows_def split: prod.splits)

lemma body_succeeds:
  "(\<exists>out. dash_analysis_body parse s1 s2 s3 = Inr out) \<longleftrightarrow>
     (\<exists>cat eff rts. s1 = Catalog cat \<and> s2 = Effort eff \<and> s3 = Rates rts \<and>
        \<not> numeric_dtype parse (map estimated_conversion_level cat) \<and>
        \<not> numeric_dtype parse (map effort_conversion_level eff) \<and>
        distinct (str_lower (str_strip (map effort_conversion_level eff))) \<and>
        (\<forall>p \<in> set (to_numeric parse (map available_data_pages (dropna cat))).
           \<exists>y. page_multiplier p = Inr y))"
  (is "?L \<longleftrightarrow> ?R")
proof
  assume ?L
  then obtain out where run: "dash_analysis_body parse s1 s2 s3 = Inr out" ..
  then obtain cat eff rts where s: "s1 = Catalog cat" "s2 = Effort eff" "s3 = Rates rts"
    by (auto elim: body_Inr)
  note b = body_base_columns[OF run[unfolded s]] and c = body_columns(1)[OF run]
  have "\<forall>p \<in> set (to_numeric parse (map available_data_pages (dropna cat))).
      \<exists>y. page_multiplier p = Inr y"
    using c unfolding b(5) apply_col_Inr by simp
  with s b(1,10,11) show ?R by blast
next
  assume ?R
  then obtain cat eff rts where s: "s1 = Catalog cat" "s2 = Effort eff" "s3 = Rates rts"
    and n1: "\<not> numeric_dtype parse (map estimated_conversion_level cat)"
    and n2: "\<not> numeric_dtype parse (map effort_conversion_level eff)"
    and d: "distinct (str_lower (str_strip (map effort_conversion_level eff)))"
    and p: "\<forall>p \<in> set (to_numeric parse (map available_data_pages (dropna cat))).
      \<exists>y. page_multiplier p = Inr y"
    by blast
  obtain df where df: "clean_dashboard parse cat = Inr df"
    and pg: "pages df = to_numeric parse (map available_data_pages (dropna cat))"
    using n1 by (simp add: clean_dashboard_Inr)
  obtain bh jp mp where lv: "map_effort_levels parse eff (conversion_level df) = Inr (bh, jp, mp)"
    using map_effort_levels_succeeds[of parse eff "conversion_level df"] n2 d by auto
  obtain pf where pf: "apply_col page_multiplier (pages df) = Inr pf"
    using p unfolding pg by (simp add: apply_col_Inr)
  show ?L
    unfolding s
    by (simp add: dash_analysis_body_def catalog_rows_def effort_rows_def rate_rows_def
        df lv pf Let_def)
qed

lemma body_lengths:
  assumes "dash_analysis_body parse s1 s2 s3 = Inr out"
  defines "df \<equiv> dashboard_df out"
  defines "n \<equiv> length (dashboard df)"
  shows "length (tool df) = n" "length (conversion_level df) = n" "length (pages df) = n"
    "length (status df) = n" "length (base_hours df) = n" "length (junior_pct df) = n"
    "length (manager_pct df) = n" "length (page_factor df) = n" "length (status_factor df) = n"
    "length (adjusted_hours df) = n" "length (jr_hours df) = n" "length (mgr_hours df) = n"
    "length (jr_cost df) = n" "length (mgr_cost df) = n" "length (total_cost df) = n"
proof -
  from assms(1) obtain cat eff rts where s: "s1 = Catalog cat" "s2 = Effort eff" "s3 = Rates rts"
    by (auto elim: body_Inr)
  note b = body_base_columns[OF assms(1)[unfolded s]] and c = body_columns[OF assms(1)]
  have n: "n = length (dropna cat)"
    unfolding n_def df_def b(2) by simp
  have pf: "page_factor df = map (\<lambda>x. Some (projr (page_multiplier x))) (pages df)"
    using c(1) unfolding df_def apply_col_Inr by simp
  show 1: "length (tool df) = n" unfolding df_def b(3) n by simp
  show 2: "length (conversion_level df) = n" unfolding df_def b(4) n by simp
  show 3: "length (pages df) = n" unfolding df_def b(5) n by (simp add: to_numeric_def)
  show 4: "length (status df) = n" unfolding df_def b(6) n by simp
  show 5: "length (base_hours df) = n" using 2 unfolding df_def b(7) by simp
  show 6: "length (junior_pct df) = n" using 2 unfolding df_def b(8) by simp
  show 7: "length (manager_pct df) = n" using 2 unfolding df_def b(9) by simp
  show 8: "length (page_factor df) = n" using 3 unfolding pf by simp
  show 9: "length (status_factor df) = n" using 4 unfolding df_def c(2) by (simp add: map_dict_def)
  show 10: "length (adjusted_hours df) = n"
    using 5 8 9 unfolding df_def c(3) by (simp add: col_mul_def)
  show 11: "length (jr_hours df) = n"
    using 10 6 unfolding df_def c(4) by (simp add: col_mul_def col_div_def)
  show 12: "length (mgr_hours df) = n"
    using 10 7 unfolding df_def c(5) by (simp add: col_mul_def col_div_def)
  show 13: "length (jr_cost df) = n"
    using 11 unfolding df_def c(6) by (simp add: col_scale_def)
  show 14: "length (mgr_cost df) = n"
    using 12 unfolding df_def c(7) by (simp add: col_scale_def)
  show "length (total_cost df) = n"
    using 13 14 unfolding df_def c(8) by (simp add: col_add_def)
qed

lemma col_mul_nth:
  "i < length xs \<Longrightarrow> i < length ys \<Longrightarrow> col_mul xs ys ! i = mul (xs ! i) (ys ! i)"
  by (simp add: col_mul_def)

lemma col_add_nth:
  "i < length xs \<Longrightarrow> i < length ys \<Longrightarrow> col_add xs ys ! i = add (xs ! i) (ys ! i)"
  by (simp add: col_add_def)

lemma col_div_nth: "i < length xs \<Longrightarrow> col_div xs d ! i = div_by (xs ! i) d"
  by (simp add: col_div_def)

lemma col_scale_nth: "i < length xs \<Longrightarrow> col_scale xs r ! i = mul (xs ! i) r"
  by (simp add: col_scale_def)

lemma body_rows:
  assumes run: "dash_analysis_body parse s1 s2 s3 = Inr out"
    and i: "i < length (dashboard (dashboard_df out))"
  defines "df \<equiv> dashboard_df out"
  shows "page_multiplier (pages df ! i) = Inr (the (page_factor df ! i))
         \<and> page_factor df ! i \<noteq> None"
    and "status_factor df ! i = (case status df ! i of None \<Rightarrow> None | Some s \<Rightarrow> status_multiplier s)"
    and "adjusted_hours df ! i = mul (mul (base_hours df ! i) (page_factor df ! i)) (status_factor df ! i)"
    and "jr_hours df ! i = mul (adjusted_hours df ! i) (div_by (junior_pct df ! i) 100)"
    and "mgr_hours df ! i = mul (adjusted_hours df ! i) (div_by (manager_pct df ! i) 100)"
    and "jr_cost df ! i = mul (jr_hours df ! i) (jr_rate out)"
    and "mgr_cost df ! i = mul (mgr_hours df ! i) (mgr_rate out)"
    and "total_cost df ! i = add (jr_cost df ! i) (mgr_cost df ! i)"
proof -
  note c = body_columns[OF run, folded df_def]
  note l = body_lengths[OF run, folded df_def]
  have i': "i < length (dashboard df)" using i by (simp add: df_def)
  have pf: "page_factor df = map (\<lambda>x. Some (projr (page_multiplier x))) (pages df)"
    and ok: "\<forall>x \<in> set (pages df). \<exists>y. page_multiplier x = Inr y"
    using c(1) unfolding apply_col_Inr by simp_all
  have "pages df ! i \<in> set (pages df)"
    using i' l(3) by simp
  with ok obtain y where y: "page_multiplier (pages df ! i) = Inr y" by blast
  show "page_multiplier (pages df ! i) = Inr (the (page_factor df ! i))
         \<and> page_factor df ! i \<noteq> None"
    unfolding pf using i' l(3) y by simp
  show "status_factor df ! i = (case status df ! i of None \<Rightarrow> None | Some s \<Rightarrow> status_multiplier s)"
    unfolding c(2) using i' l(4) by (simp add: map_dict_def)
  show "adjusted_hours df ! i = mul (mul (base_hours df ! i) (page_factor df ! i)) (status_factor df ! i)"
    using i' l(5,8,9) by (subst c(3)) (simp add: col_mul_nth col_mul_def)
  show "jr_hours df ! i = mul (adjusted_hours df ! i) (div_by (junior_pct df ! i) 100)"
    using i' l(10,6) by (subst c(4)) (simp add: col_mul_nth col_div_nth col_div_def)
  show "mgr_hours df ! i = mul (adjusted_hours df ! i) (div_by (manager_pct df ! i) 100)"
    using i' l(10,7) by (subst c(5)) (simp add: col_mul_nth col_div_nth col_div_def)
  show "jr_cost df ! i = mul (jr_hours df ! i) (jr_rate out)"
    using i' l(11) by (subst c(6)) (simp add: col_scale_nth)
  show "mgr_cost df ! i = mul (mgr_hours df ! i) (mgr_rate out)"
    using i' l(12) by (subst c(7)) (simp add: col_scale_nth)
  show "total_cost df ! i = add (jr_cost df ! i) (mgr_cost df ! i)"
    using i' l(13,14) by (subst c(8)) (simp add: col_add_nth)
qed

lemma body_rowwise:
  obtains F G H where
    "\<And>cat out. dash_analysis_body parse (Catalog cat) s2 s3 = Inr out \<Longrightarrow>
       adjusted_hours (dashboard_df out) = map F (dropna cat) \<and>
       jr_cost (dashboard_df out) = map G (dropna cat) \<and>
       mgr_cost (dashboard_df out) = map H (dropna cat)"
proof (cases "\<exists>eff rts. s2 = Effort eff \<and> s3 = Rates rts")
  case False
  then have "dash_analysis_body parse (Catalog cat) s2 s3 \<noteq> Inr out" for cat out
    by (auto elim!: body_Inr)
  then show ?thesis
    using that[of "\<lambda>_. None" "\<lambda>_. None" "\<lambda>_. None"] by simp
next
  case True
  then obtain eff rts where s: "s2 = Effort eff" "s3 = Rates rts" by blast
  define index where "index = str_lower (str_strip (map effort_conversion_level eff))"
  define look where "look vals k = (case map_of (zip index vals) k of None \<Rightarrow> None | Some v \<Rightarrow> v)"
    for vals :: "num list" and k :: str
  define level where "level r = map_option lower (map_option strip (estimated_conversion_level r))"
    for r :: catalog_row
  define stat where "stat r = map_option lower (map_option strip
      (case catalog_status r of None \<Rightarrow> Some ''nan'' | Some s \<Rightarrow> Some s))" for r :: catalog_row
  define pg where "pg r = (case available_data_pages r of Blank \<Rightarrow> NaN | Number x \<Rightarrow> Fin x
      | Text s \<Rightarrow> parse s)" for r :: catalog_row
  define F where "F r = mul (mul (look (map conversion_rate_hrs eff) (level r))
      (Some (projr (page_multiplier (pg r)))))
      (case stat r of None \<Rightarrow> None | Some s \<Rightarrow> status_multiplier s)" for r
  define G where "G r = mul (mul (F r) (div_by (look (map junior_analyst_efforts eff) (level r)) 100))
      (dict_get (to_dict (map position rts) (map hourly_rates rts)) (Some ''Junior Analyst'') (Some 0))" for r
  define H where "H r = mul (mul (F r) (div_by (look (map manager_efforts eff) (level r)) 100))
      (dict_get (to_dict (map position rts) (map hourly_rates rts)) (Some ''Manager'') (Some 0))" for r
  have "adjusted_hours (dashboard_df out) = map F (dropna cat) \<and>
     jr_cost (dashboard_df out) = map G (dropna cat) \<and>
     mgr_cost (dashboard_df out) = map H (dropna cat)"
    if run: "dash_analysis_body parse (Catalog cat) s2 s3 = Inr out" for cat out
  proof -
    let ?df = "dashboard_df out"
    note b = body_base_columns[OF run[unfolded s]] and c = body_columns[OF run]
      and r = body_rates[OF run[unfolded s]]
    have lv: "conversion_level ?df = map level (dropna cat)"
      unfolding b(4) level_def ..
    have bh: "base_hours ?df = map (\<lambda>r. look (map conversion_rate_hrs eff) (level r)) (dropna cat)"
      unfolding b(7) lv look_def index_def by (simp add: o_def)
    have jp: "junior_pct ?df = map (\<lambda>r. look (map junior_analyst_efforts eff) (level r)) (dropna cat)"
      unfolding b(8) lv look_def index_def by (simp add: o_def)
    have mp: "manager_pct ?df = map (\<lambda>r. look (map manager_efforts eff) (level r)) (dropna cat)"
      unfolding b(9) lv look_def index_def by (simp add: o_def)
    have pgs: "pages ?df = map pg (dropna cat)"
      unfolding b(5) pg_def by (simp add: to_numeric_def o_def)
    have "page_factor ?df = map (\<lambda>x. Some (projr (page_multiplier x))) (pages ?df)"
      using c(1) unfolding apply_col_Inr by simp
    then have pf: "page_factor ?df = map (\<lambda>r. Some (projr (page_multiplier (pg r)))) (dropna cat)"
      unfolding pgs by (simp add: o_def)
    have sf: "status_factor ?df = map (\<lambda>r. case stat r of None \<Rightarrow> None | Some s \<Rightarrow> status_multiplier s) (dropna cat)"
      unfolding c(2) b(6) stat_def by (simp add: map_dict_def o_def)
    have ah: "adjusted_hours ?df = map F (dropna cat)"
      unfolding c(3) bh pf sf col_mul_map F_def ..
    have jh: "jr_cost ?df = map G (dropna cat)"
      unfolding c(6) c(4) ah jp col_div_map col_mul_map col_scale_map r(1) G_def ..
    have mh: "mgr_cost ?df = map H (dropna cat)"
      unfolding c(7) c(5) ah mp col_div_map col_mul_map col_scale_map r(2) H_def ..
    show ?thesis using ah jh mh by simp
  qed
  then show ?thesis
    by (rule that[of F G H])
qed

lemma to_dict_map:
  "to_dict (map f rs) (map g rs) k =
     (case filter (\<lambda>r. f r = k) rs of [] \<Rightarrow> None | x # xs \<Rightarrow> Some (g (last (x # xs))))"
proof (induction rs rule: rev_induct)
  case Nil
  then show ?case by (simp add: to_dict_def)
next
  case (snoc r rs)
  have step: "to_dict (map f (rs @ [r])) (map g (rs @ [r])) = (to_dict (map f rs) (map g rs))(f r \<mapsto> g r)"
    by (simp add: to_dict_def zip_append)
  show ?case
  proof (cases "f r = k")
    case True
    obtain x xs where xs: "filter (\<lambda>r. f r = k) rs @ [r] = x # xs"
      by (cases "filter (\<lambda>r. f r = k) rs") auto
    then have "last (x # xs) = r"
      by (metis last_snoc)
    with True xs show ?thesis
      unfolding step by simp
  next
    case False
    then show ?thesis
      unfolding step using snoc.IH by simp
  qed
qed

lemma to_dict_miss:
  assumes "k \<notin> f ` set rs"
  shows "to_dict (map f rs) (map g rs) k = None"
proof -
  have "filter (\<lambda>r. f r = k) rs = []"
    using assms by (auto simp: filter_empty_conv)
  then show ?thesis by (simp add: to_dict_map)
qed

lemma sum_skipna_foldl:
  "foldl (\<lambda>acc x. case x of None \<Rightarrow> acc | Some v \<Rightarrow> acc + v) a col =
     foldl (+) a (map the (filter (\<lambda>x. x \<noteq> None) col))"
  by (induction col arbitrary: a) (simp_all split: option.splits)

lemma sum_skipna_defined:
  "sum_skipna col = foldl (+) 0 (map the (filter (\<lambda>x. x \<noteq> None) col))"
  by (simp add: sum_skipna_def sum_skipna_foldl)



lemma dropna_mset:
  assumes "mset xs = mset ys"
  shows "mset (dropna xs) = mset (dropna ys)"
  using assms by (simp add: dropna_def)

lemma numeric_dtype_set:
  assumes "set xs = set ys"
  shows "numeric_dtype parse xs = numeric_dtype parse ys"
proof -
  have "xs = [] \<longleftrightarrow> ys = []"
    using assms by (metis set_empty)
  then show ?thesis
    using assms by (simp add: numeric_dtype_def list_all_iff)
qed

lemma body_any_efforts:
  assumes run: "dash_analysis_body parse s1 (Effort eff) s3 = Inr out"
    and same: "map effort_conversion_level eff' = map effort_conversion_level eff"
  shows "\<exists>out'. dash_analysis_body parse s1 (Effort eff') s3 = Inr out'"
proof -
  from run have "\<exists>out. dash_analysis_body parse s1 (Effort eff) s3 = Inr out" ..
  then obtain cat rts where s: "s1 = Catalog cat" "s3 = Rates rts"
    and d: "\<not> numeric_dtype parse (map estimated_conversion_level cat)"
      "\<not> numeric_dtype parse (map effort_conversion_level eff)"
      "distinct (str_lower (str_strip (map effort_conversion_level eff)))"
      "\<forall>p \<in> set (to_numeric parse (map available_data_pages (dropna cat))).
         \<exists>y. page_multiplier p = Inr y"
    unfolding body_succeeds by auto
  show ?thesis
    unfolding body_succeeds using s d same by simp
qed

subsection \<open>The example run\<close>

lemma demo_clean: "clean_dashboard plain_text demo_catalog =
    Inr \<lparr>dashboard = [Some ''Sales'', Some ''Ops'', Some ''HR''],
     tool = [Some ''Tableau'', Some ''Qlik'', None],
     conversion_level = [Some ''medium'', Some ''high'', Some ''low''],
     pages = [Fin 3, Fin 15, NaN],
     status = [Some ''active'', Some ''broken'', Some ''unknown'']\<rparr>"
  by (simp add: demo_catalog_def clean_dashboard_def dropna_def rename_def str_lower_def
      str_strip_def astype_str_def to_numeric_def lower_def strip_def lower_char_def isspace_def
      capitals_def smalls_def numeric_dtype_def plain_text_def str_accessor_def)

lemma demo_levels:
  "map_effort_levels plain_text demo_effort [Some ''medium'', Some ''high'', Some ''low''] =
    Inr ([Some 10, Some 20, Some 5], [Some 70, Some 60, Some 100], [Some 30, Some 60, Some 0])"
  by (simp add: demo_effort_def map_effort_levels_def map_series_def str_lower_def
      str_strip_def lower_def strip_def lower_char_def isspace_def capitals_def smalls_def
      numeric_dtype_def plain_text_def str_accessor_def)

lemma demo_page:
  "apply_col page_multiplier [Fin 3, Fin 15, NaN] = Inr [Some 1.1, Some 1.45, Some 1]"
  by (simp add: page_multiplier_def py_int_def scale_def dict_get_def)

lemma demo_status: "map_dict [Some ''active'', Some ''broken'', Some ''unknown''] status_multiplier
    = [Some 1, Some 1.3, None]"
  by (simp add: map_dict_def status_multiplier_def)

lemma demo_run:
  "dash_analysis_body plain_text (Catalog demo_catalog) (Effort demo_effort) (Rates demo_rates) =
  Inr \<lparr>dashboard_df =
        \<lparr>dashboard = [Some ''Sales'', Some ''Ops'', Some ''HR''],
           tool = [Some ''Tableau'', Some ''Qlik'', None],
           conversion_level = [Some ''medium'', Some ''high'', Some ''low''],
           pages = [Fin 3, Fin 15, NaN],
           status = [Some ''active'', Some ''broken'', Some ''unknown''],
           base_hours = [Some 10, Some 20, Some 5],
           junior_pct = [Some 70, Some 60, Some 100],
           manager_pct = [Some 30, Some 60, Some 0],
           page_factor = [Some 1.1, Some 1.45, Some 1],
           status_factor = [Some 1, Some 1.3, None],
           adjusted_hours = [Some 11, Some 37.7, None],
           jr_hours = [Some 7.7, Some 22.62, None],
           mgr_hours = [Some 3.3, Some 22.62, None],
           jr_cost = [Some 385, Some 1131, None],
           mgr_cost = [Some 330, Some 2262, None],
           total_cost = [Some 715, Some 3393, None]\<rparr>,
        jr_rate = Some 50, mgr_rate = Some 100, total_hours = 48.7,
        total_jr_cost = 1516, total_mgr_cost = 2592,
        contractor_total_cost = Some 2094.1\<rparr>"
  by (simp add: dash_analysis_body_def catalog_rows_def effort_rows_def rate_rows_def
      demo_clean demo_levels demo_page demo_status demo_rates_def
      col_mul_def col_div_def col_scale_def col_add_def sum_skipna_def to_dict_def dict_get_def
      mul_def add_def div_by_def Let_def del: apply_col.simps)

subsection \<open>The cost formula\<close>

text \<open>
  Claim C1. In every row of the frame of a completed run, the adjusted hours are the product
  of base hours, page factor and status factor; each role's hours are the adjusted hours
  times the hundredth of the role's percentage (the script divides the percentage by 100
  first; over the reals that is the adjusted hours times the percentage over 100); each
  role's cost is its hours times its rate; and the total cost is the sum of the two costs.
  A value is undefined exactly when an operand is. Nothing checks the percentages: the run
  completes whatever numbers the effort table holds.
\<close>

theorem cost_model_formula:
  assumes run: "dash_analysis_body parse s1 s2 s3 = Inr out"
    and i: "i < length (dashboard (dashboard_df out))"
  defines "df \<equiv> dashboard_df out"
  shows "adjusted_hours df ! i =
           (case (base_hours df ! i, page_factor df ! i, status_factor df ! i) of
              (Some b, Some p, Some s) \<Rightarrow> Some (b * p * s)
            | _ \<Rightarrow> None)
       \<and> jr_hours df ! i =
           (case (adjusted_hours df ! i, junior_pct df ! i) of
              (Some a, Some q) \<Rightarrow> Some (a * (q / 100))
            | _ \<Rightarrow> None)
       \<and> mgr_hours df ! i =
           (case (adjusted_hours df ! i, manager_pct df ! i) of
              (Some a, Some q) \<Rightarrow> Some (a * (q / 100))
            | _ \<Rightarrow> None)
       \<and> jr_cost df ! i =
           (case (jr_hours df ! i, jr_rate out) of
              (Some h, Some r) \<Rightarrow> Some (h * r)
            | _ \<Rightarrow> None)
       \<and> mgr_cost df ! i =
           (case (mgr_hours df ! i, mgr_rate out) of
              (Some h, Some r) \<Rightarrow> Some (h * r)
            | _ \<Rightarrow> None)
       \<and> total_cost df ! i =
           (case (jr_cost df ! i, mgr_cost df ! i) of
              (Some x, Some y) \<Rightarrow> Some (x + y)
            | _ \<Rightarrow> None)
       \<and> (\<forall>eff eff'. s2 = Effort eff
             \<and> map effort_conversion_level eff' = map effort_conversion_level eff
           \<longrightarrow> (\<exists>out'. dash_analysis_body parse s1 (Effort eff') s3 = Inr out'))"
proof -
  note r = body_rows[OF run i, folded df_def]
  have 1: "adjusted_hours df ! i =
           (case (base_hours df ! i, page_factor df ! i, status_factor df ! i) of
              (Some b, Some p, Some s) \<Rightarrow> Some (b * p * s)
            | _ \<Rightarrow> None)"
    unfolding r(3) by (simp add: mul_def split: option.splits)
  have 2: "jr_hours df ! i =
           (case (adjusted_hours df ! i, junior_pct df ! i) of
              (Some a, Some q) \<Rightarrow> Some (a * (q / 100))
            | _ \<Rightarrow> None)"
    unfolding r(4) by (simp add: mul_def div_by_def split: option.splits)
  have 3: "mgr_hours df ! i =
           (case (adjusted_hours df ! i, manager_pct df ! i) of
              (Some a, Some q) \<Rightarrow> Some (a * (q / 100))
            | _ \<Rightarrow> None)"
    unfolding r(5) by (simp add: mul_def div_by_def split: option.splits)
  have 4: "jr_cost df ! i =
           (case (jr_hours df ! i, jr_rate out) of
              (Some h, Some r) \<Rightarrow> Some (h * r)
            | _ \<Rightarrow> None)"
    unfolding r(6) by (simp add: mul_def split: option.splits)
  have 5: "mgr_cost df ! i =
           (case (mgr_hours df ! i, mgr_rate out) of
              (Some h, Some r) \<Rightarrow> Some (h * r)
            | _ \<Rightarrow> None)"
    unfolding r(7) by (simp add: mul_def split: option.splits)
  have 6: "total_cost df ! i =
           (case (jr_cost df ! i, mgr_cost df ! i) of
              (Some x, Some y) \<Rightarrow> Some (x + y)
            | _ \<Rightarrow> None)"
    unfolding r(8) by (simp add: add_def split: option.splits)
  have 7: "\<forall>eff eff'. s2 = Effort eff
             \<and> map effort_conversion_level eff' = map effort_conversion_level eff
           \<longrightarrow> (\<exists>out'. dash_analysis_body parse s1 (Effort eff') s3 = Inr out')"
  proof (intro allI, rule impI)
    fix eff eff' :: "effort_row list"
    assume h: "s2 = Effort eff
      \<and> map effort_conversion_level eff' = map effort_conversion_level eff"
    then have run': "dash_analysis_body parse s1 (Effort eff) s3 = Inr out"
      using run by simp
    from body_any_efforts[OF run'] h
    show "\<exists>out'. dash_analysis_body parse s1 (Effort eff') s3 = Inr out'"
      by blast
  qed
  show ?thesis
    by (intro conjI) (fact 1 2 3 4 5 6 7)+
qed

theorem cost_model_formula_witness:
  "\<exists>out. dash_analysis_body plain_text (Catalog demo_catalog) (Effort demo_effort)
            (Rates demo_rates) = Inr out
     \<and> 1 < length (dashboard (dashboard_df out))
     \<and> base_hours (dashboard_df out) ! 1 = Some 20
     \<and> page_factor (dashboard_df out) ! 1 = Some 1.45
     \<and> status_factor (dashboard_df out) ! 1 = Some 1.3
     \<and> junior_pct (dashboard_df out) ! 1 = Some 60
     \<and> manager_pct (dashboard_df out) ! 1 = Some 60
     \<and> adjusted_hours (dashboard_df out) ! 1 = Some (20 * 1.45 * 1.3)
     \<and> jr_hours (dashboard_df out) ! 1 = Some (37.7 * (60 / 100))
     \<and> mgr_hours (dashboard_df out) ! 1 = Some (37.7 * (60 / 100))
     \<and> jr_cost (dashboard_df out) ! 1 = Some (22.62 * 50)
     \<and> mgr_cost (dashboard_df out) ! 1 = Some (22.62 * 100)
     \<and> total_cost (dashboard_df out) ! 1 = Some (1131 + 2262)"
  using cost_model_formula[of plain_text "Catalog demo_catalog" "Effort demo_effort"
      "Rates demo_rates" _ 1, OF demo_run]
  by (simp add: demo_run)

subsection \<open>The status factor\<close>

lemma status_multiplier_other:
  assumes "s \<notin> {''active'', ''in progress'', ''broken''}"
  shows "status_multiplier s = None"
  using assms by (simp add: status_multiplier_def)

lemma mul_None [simp]: "mul None b = None" "mul a None = None"
  by (simp_all add: mul_def split: option.splits)

lemma add_None [simp]: "add None b = None" "add a None = None"
  by (simp_all add: add_def split: option.splits)

lemma div_by_None [simp]: "div_by None d = None"
  by (simp add: div_by_def)

lemma status_only:
  assumes "map (\<lambda>r. r\<lparr>catalog_status := None\<rparr>) cat' = map (\<lambda>r. r\<lparr>catalog_status := None\<rparr>) cat"
  shows "map estimated_conversion_level cat' = map estimated_conversion_level cat"
    and "map available_data_pages (dropna cat') = map available_data_pages (dropna cat)"
proof -
  let ?g = "\<lambda>r. r\<lparr>catalog_status := None\<rparr>"
  have lv: "map estimated_conversion_level xs = map estimated_conversion_level (map ?g xs)"
    for xs :: "catalog_row list"
    by (simp add: o_def)
  have pg: "map available_data_pages (dropna xs) = map available_data_pages (dropna (map ?g xs))"
    for xs :: "catalog_row list"
    by (induction xs) (simp_all add: dropna_def)
  show "map estimated_conversion_level cat' = map estimated_conversion_level cat"
    using lv[of cat'] lv[of cat] assms by simp
  show "map available_data_pages (dropna cat') = map available_data_pages (dropna cat)"
    using pg[of cat'] pg[of cat] assms by simp
qed

lemma body_any_status:
  assumes run: "dash_analysis_body parse (Catalog cat) s2 s3 = Inr out"
    and same: "map (\<lambda>r. r\<lparr>catalog_status := None\<rparr>) cat' = map (\<lambda>r. r\<lparr>catalog_status := None\<rparr>) cat"
  shows "\<exists>out'. dash_analysis_body parse (Catalog cat') s2 s3 = Inr out'"
proof -
  from run have "\<exists>out. dash_analysis_body parse (Catalog cat) s2 s3 = Inr out" ..
  then show ?thesis
    unfolding body_succeeds using status_only[OF same] by simp
qed

text \<open>
  Claim C3. The status factor is 1.0 for \<^verbatim>\<open>active\<close>, 1.1 for \<^verbatim>\<open>in progress\<close> and
  1.3 for \<^verbatim>\<open>broken\<close>, and undefined for any other normalised status. In a row with such a
  status the undefined factor makes the adjusted hours, the role hours, both costs and the
  total cost undefined. No status aborts the run: when a run completes, so does the run on
  any catalog that differs from its catalog in status cells only.
\<close>

theorem status_factor_soft_failure:
  assumes run: "dash_analysis_body parse (Catalog cat) s2 s3 = Inr out"
  defines "df \<equiv> dashboard_df out"
  shows "status_multiplier ''active'' = Some 1.0
       \<and> status_multiplier ''in progress'' = Some 1.1
       \<and> status_multiplier ''broken'' = Some 1.3
       \<and> (\<forall>s. s \<notin> {''active'', ''in progress'', ''broken''} \<longrightarrow> status_multiplier s = None)
       \<and> (\<forall>i s. i < length (status df) \<and> status df ! i = Some s
             \<longrightarrow> status_factor df ! i = status_multiplier s)
       \<and> (\<forall>i. i < length (status df)
               \<and> status df ! i \<notin> {Some ''active'', Some ''in progress'', Some ''broken''}
             \<longrightarrow> status_factor df ! i = None \<and> adjusted_hours df ! i = None
               \<and> jr_hours df ! i = None \<and> mgr_hours df ! i = None
               \<and> jr_cost df ! i = None \<and> mgr_cost df ! i = None \<and> total_cost df ! i = None)
       \<and> (\<forall>cat'. map (\<lambda>r. r\<lparr>catalog_status := None\<rparr>) cat'
                  = map (\<lambda>r. r\<lparr>catalog_status := None\<rparr>) cat
             \<longrightarrow> (\<exists>out'. dash_analysis_body parse (Catalog cat') s2 s3 = Inr out'))"
proof -
  have t1: "status_multiplier ''active'' = Some 1.0"
    and t2: "status_multiplier ''in progress'' = Some 1.1"
    and t3: "status_multiplier ''broken'' = Some 1.3"
    by (simp_all add: status_multiplier_def)
  have t4: "\<forall>s. s \<notin> {''active'', ''in progress'', ''broken''} \<longrightarrow> status_multiplier s = None"
    using status_multiplier_other by blast
  have t7: "\<forall>cat'. map (\<lambda>r. r\<lparr>catalog_status := None\<rparr>) cat'
                  = map (\<lambda>r. r\<lparr>catalog_status := None\<rparr>) cat
             \<longrightarrow> (\<exists>out'. dash_analysis_body parse (Catalog cat') s2 s3 = Inr out')"
    using body_any_status[OF run] by blast
  have n: "length (status df) = length (dashboard (dashboard_df out))"
    using body_lengths(4)[OF run] by (simp add: df_def)
  have t5: "\<forall>i s. i < length (status df) \<and> status df ! i = Some s
      \<longrightarrow> status_factor df ! i = status_multiplier s"
  proof (intro allI impI)
    fix i s
    assume h: "i < length (status df) \<and> status df ! i = Some s"
    then have i: "i < length (dashboard (dashboard_df out))" using n by simp
    show "status_factor df ! i = status_multiplier s"
      using body_rows(2)[OF run i] h by (simp add: df_def)
  qed
  have t6: "\<forall>i. i < length (status df)
        \<and> status df ! i \<notin> {Some ''active'', Some ''in progress'', Some ''broken''}
      \<longrightarrow> status_factor df ! i = None \<and> adjusted_hours df ! i = None
        \<and> jr_hours df ! i = None \<and> mgr_hours df ! i = None
        \<and> jr_cost df ! i = None \<and> mgr_cost df ! i = None \<and> total_cost df ! i = None"
  proof (rule allI, rule impI)
    fix i
    assume h: "i < length (status df)
      \<and> status df ! i \<notin> {Some ''active'', Some ''in progress'', Some ''broken''}"
    then have i: "i < length (dashboard (dashboard_df out))" using n by simp
    note r = body_rows[OF run i, folded df_def]
    have sf: "status_factor df ! i = None"
    proof (cases "status df ! i")
      case None
      then show ?thesis by (simp add: r(2))
    next
      case (Some s)
      with h have "s \<notin> {''active'', ''in progress'', ''broken''}" by auto
      then have "status_multiplier s = None" by (rule status_multiplier_other)
      then show ?thesis by (simp add: r(2) Some)
    qed
    have ah: "adjusted_hours df ! i = None" by (simp add: r(3) sf)
    have jh: "jr_hours df ! i = None" and mh: "mgr_hours df ! i = None"
      by (simp_all add: r(4) r(5) ah)
    have jc: "jr_cost df ! i = None" and mc: "mgr_cost df ! i = None"
      by (simp_all add: r(6) r(7) jh mh)
    have tc: "total_cost df ! i = None" by (simp add: r(8) jc)
    show "status_factor df ! i = None \<and> adjusted_hours df ! i = None
        \<and> jr_hours df ! i = None \<and> mgr_hours df ! i = None
        \<and> jr_cost df ! i = None \<and> mgr_cost df ! i = None \<and> total_cost df ! i = None"
      by (intro conjI) (fact sf ah jh mh jc mc tc)+
  qed
  show ?thesis
    by (intro conjI) (fact t1 t2 t3 t4 t5 t6 t7)+
qed

theorem status_factor_soft_failure_witness:
  "\<exists>out out'.
       dash_analysis_body plain_text (Catalog demo_catalog) (Effort demo_effort)
         (Rates demo_rates) = Inr out
     \<and> 2 < length (status (dashboard_df out))
     \<and> status (dashboard_df out) ! 2 = Some ''unknown''
     \<and> Some ''unknown'' \<notin> {Some ''active'', Some ''in progress'', Some ''broken''}
     \<and> status_factor (dashboard_df out) ! 2 = None
     \<and> adjusted_hours (dashboard_df out) ! 2 = None
     \<and> jr_cost (dashboard_df out) ! 2 = None
     \<and> mgr_cost (dashboard_df out) ! 2 = None
     \<and> total_cost (dashboard_df out) ! 2 = None
     \<and> status (dashboard_df out) ! 1 = Some ''broken''
     \<and> status_factor (dashboard_df out) ! 1 = status_multiplier ''broken''
     \<and> map catalog_status (map (\<lambda>r. r\<lparr>catalog_status := Some ''retired''\<rparr>) demo_catalog)
         = [Some ''retired'', Some ''retired'', Some ''retired'', Some ''retired'']
     \<and> dash_analysis_body plain_text
         (Catalog (map (\<lambda>r. r\<lparr>catalog_status := Some ''retired''\<rparr>) demo_catalog))
         (Effort demo_effort) (Rates demo_rates) = Inr out'"
proof -
  let ?cat' = "map (\<lambda>r. r\<lparr>catalog_status := Some ''retired''\<rparr>) demo_catalog"
  note t = status_factor_soft_failure[of plain_text demo_catalog "Effort demo_effort"
      "Rates demo_rates", OF demo_run]
  note t5 = t[THEN conjunct2, THEN conjunct2, THEN conjunct2, THEN conjunct2, THEN conjunct1,
      rule_format, of 1 "''broken''"]
  note t6 = t[THEN conjunct2, THEN conjunct2, THEN conjunct2, THEN conjunct2, THEN conjunct2,
      THEN conjunct1, rule_format, of 2]
  note t7 = t[THEN conjunct2, THEN conjunct2, THEN conjunct2, THEN conjunct2, THEN conjunct2,
      THEN conjunct2, rule_format, of ?cat']
  have same: "map (\<lambda>r. r\<lparr>catalog_status := None\<rparr>) ?cat'
      = map (\<lambda>r. r\<lparr>catalog_status := None\<rparr>) demo_catalog"
    by simp
  obtain out' where run': "dash_analysis_body plain_text (Catalog ?cat') (Effort demo_effort)
      (Rates demo_rates) = Inr out'"
    using t7[OF same] by blast
  have st: "map catalog_status ?cat'
      = [Some ''retired'', Some ''retired'', Some ''retired'', Some ''retired'']"
    by (simp add: demo_catalog_def)
  show ?thesis
    using t5 t6 run' st by (simp add: demo_run)
qed

subsection \<open>The totals\<close>

lemma partial_levels:
  "map_effort_levels plain_text partial_effort [Some ''medium'', Some ''high'', Some ''low''] =
    Inr ([Some 10, Some 20, Some 5], [None, Some 60, Some 100], [Some 30, Some 60, Some 0])"
  by (simp add: partial_effort_def map_effort_levels_def map_series_def str_lower_def
      str_strip_def lower_def strip_def lower_char_def isspace_def capitals_def smalls_def
      numeric_dtype_def plain_text_def str_accessor_def)

lemma partial_run_eval:
  "partial_run =
  Inr \<lparr>dashboard_df =
        \<lparr>dashboard = [Some ''Sales'', Some ''Ops'', Some ''HR''],
           tool = [Some ''Tableau'', Some ''Qlik'', None],
           conversion_level = [Some ''medium'', Some ''high'', Some ''low''],
           pages = [Fin 3, Fin 15, NaN],
           status = [Some ''active'', Some ''broken'', Some ''unknown''],
           base_hours = [Some 10, Some 20, Some 5],
           junior_pct = [None, Some 60, Some 100],
           manager_pct = [Some 30, Some 60, Some 0],
           page_factor = [Some 1.1, Some 1.45, Some 1],
           status_factor = [Some 1, Some 1.3, None],
           adjusted_hours = [Some 11, Some 37.7, None],
           jr_hours = [None, Some 22.62, None],
           mgr_hours = [Some 3.3, Some 22.62, None],
           jr_cost = [None, Some 1131, None],
           mgr_cost = [Some 330, Some 2262, None],
           total_cost = [None, Some 3393, None]\<rparr>,
        jr_rate = Some 50, mgr_rate = Some 100, total_hours = 48.7,
        total_jr_cost = 1131, total_mgr_cost = 2592,
        contractor_total_cost = Some 2094.1\<rparr>"
  unfolding partial_run_def
  by (simp add: dash_analysis_body_def catalog_rows_def effort_rows_def rate_rows_def
      demo_clean partial_levels demo_page demo_status demo_rates_def
      col_mul_def col_div_def col_scale_def col_add_def sum_skipna_def to_dict_def dict_get_def
      mul_def add_def div_by_def Let_def del: apply_col.simps)

text \<open>
  Claim C4 as stated fails. In the example run with an effort table that lacks the junior
  percentage of the medium level, the first row has undefined derived values (its junior
  hours, junior cost and total cost), yet its 11 adjusted hours are part of the total of
  hours, 48.7 and not 37.7, and its manager cost of 330 is part of the manager total, 2592
  and not 2262: the row is excluded from the junior total only.
\<close>

theorem undefined_row_counted_counterexample:
  "\<not> isl partial_run
   \<and> jr_hours (dashboard_df (projr partial_run)) ! 0 = None
   \<and> jr_cost (dashboard_df (projr partial_run)) ! 0 = None
   \<and> total_cost (dashboard_df (projr partial_run)) ! 0 = None
   \<and> adjusted_hours (dashboard_df (projr partial_run)) = [Some 11, Some 37.7, None]
   \<and> jr_cost (dashboard_df (projr partial_run)) = [None, Some 1131, None]
   \<and> mgr_cost (dashboard_df (projr partial_run)) = [Some 330, Some 2262, None]
   \<and> total_hours (projr partial_run) = 11 + 37.7
   \<and> total_hours (projr partial_run) \<noteq> 37.7
   \<and> total_jr_cost (projr partial_run) = 1131
   \<and> total_mgr_cost (projr partial_run) = 330 + 2262
   \<and> total_mgr_cost (projr partial_run) \<noteq> 2262"
  by (simp add: partial_run_eval)

lemma body_any_order:
  assumes run: "dash_analysis_body parse (Catalog cat) s2 s3 = Inr out"
    and m: "mset cat' = mset cat"
  shows "\<exists>out'. dash_analysis_body parse (Catalog cat') s2 s3 = Inr out'"
proof -
  have "set cat' = set cat"
    using m by (rule mset_eq_setD)
  then have lv: "set (map estimated_conversion_level cat') = set (map estimated_conversion_level cat)"
    by simp
  have "mset (dropna cat') = mset (dropna cat)"
    using m by (rule dropna_mset)
  then have "set (dropna cat') = set (dropna cat)"
    by (rule mset_eq_setD)
  then have pg: "set (to_numeric parse (map available_data_pages (dropna cat')))
      = set (to_numeric parse (map available_data_pages (dropna cat)))"
    by (simp add: to_numeric_def)
  from run have "\<exists>out. dash_analysis_body parse (Catalog cat) s2 s3 = Inr out" ..
  then show ?thesis
    unfolding body_succeeds using numeric_dtype_set[OF lv] pg by simp
qed

text \<open>
  Claim C4, amended. Each total is the sum of its own column, added up from zero in row
  order over exactly the rows where that column is defined; an undefined value is skipped,
  not counted as zero. A row is thus left out of a total when its value in that column is undefined: a
  row with an unknown level or an unrecognised status, whose base hours or status factor
  are undefined, has undefined adjusted hours and role costs and is left out of all three
  totals. The run on a catalog with the same rows in another order completes too, and each
  of its three columns holds the same values, as many times each, in another order: its
  totals add up the same values in another order.
\<close>

theorem totals_skip_undefined:
  assumes run: "dash_analysis_body parse (Catalog cat) s2 s3 = Inr out"
  defines "df \<equiv> dashboard_df out"
  shows "total_hours out = foldl (+) 0 (map the (filter (\<lambda>x. x \<noteq> None) (adjusted_hours df)))
       \<and> total_jr_cost out = foldl (+) 0 (map the (filter (\<lambda>x. x \<noteq> None) (jr_cost df)))
       \<and> total_mgr_cost out = foldl (+) 0 (map the (filter (\<lambda>x. x \<noteq> None) (mgr_cost df)))
       \<and> (\<forall>i. i < length (adjusted_hours df)
               \<and> (base_hours df ! i = None \<or> status_factor df ! i = None)
             \<longrightarrow> adjusted_hours df ! i = None \<and> jr_cost df ! i = None
               \<and> mgr_cost df ! i = None)
       \<and> (\<forall>cat'. mset cat' = mset cat
             \<longrightarrow> (\<exists>out'. dash_analysis_body parse (Catalog cat') s2 s3 = Inr out'
                   \<and> mset (adjusted_hours (dashboard_df out')) = mset (adjusted_hours df)
                   \<and> mset (jr_cost (dashboard_df out')) = mset (jr_cost df)
                   \<and> mset (mgr_cost (dashboard_df out')) = mset (mgr_cost df)))"
proof -
  note c = body_columns[OF run, folded df_def]
  have t1: "total_hours out = foldl (+) 0 (map the (filter (\<lambda>x. x \<noteq> None) (adjusted_hours df)))"
    unfolding c(9) by (rule sum_skipna_defined)
  have t2: "total_jr_cost out = foldl (+) 0 (map the (filter (\<lambda>x. x \<noteq> None) (jr_cost df)))"
    unfolding c(10) by (rule sum_skipna_defined)
  have t3: "total_mgr_cost out = foldl (+) 0 (map the (filter (\<lambda>x. x \<noteq> None) (mgr_cost df)))"
    unfolding c(11) by (rule sum_skipna_defined)
  have n: "length (adjusted_hours df) = length (dashboard (dashboard_df out))"
    using body_lengths(10)[OF run] by (simp add: df_def)
  have t4: "\<forall>i. i < length (adjusted_hours df)
        \<and> (base_hours df ! i = None \<or> status_factor df ! i = None)
      \<longrightarrow> adjusted_hours df ! i = None \<and> jr_cost df ! i = None \<and> mgr_cost df ! i = None"
  proof (rule allI, rule impI)
    fix i
    assume h: "i < length (adjusted_hours df)
      \<and> (base_hours df ! i = None \<or> status_factor df ! i = None)"
    then have i: "i < length (dashboard (dashboard_df out))" using n by simp
    note r = body_rows[OF run i, folded df_def]
    have ah: "adjusted_hours df ! i = None"
      using h unfolding r(3) by auto
    have jc: "jr_cost df ! i = None"
      unfolding r(6) r(4) ah by simp
    have mc: "mgr_cost df ! i = None"
      unfolding r(7) r(5) ah by simp
    show "adjusted_hours df ! i = None \<and> jr_cost df ! i = None \<and> mgr_cost df ! i = None"
      by (intro conjI) (fact ah jc mc)+
  qed
  have t5: "\<forall>cat'. mset cat' = mset cat
      \<longrightarrow> (\<exists>out'. dash_analysis_body parse (Catalog cat') s2 s3 = Inr out'
            \<and> mset (adjusted_hours (dashboard_df out')) = mset (adjusted_hours df)
            \<and> mset (jr_cost (dashboard_df out')) = mset (jr_cost df)
            \<and> mset (mgr_cost (dashboard_df out')) = mset (mgr_cost df))"
  proof (rule allI, rule impI)
    fix cat'
    assume h: "mset cat' = mset cat"
    obtain out' where run': "dash_analysis_body parse (Catalog cat') s2 s3 = Inr out'"
      using body_any_order[OF run h] by blast
    have m: "mset (dropna cat') = mset (dropna cat)"
      using h by (rule dropna_mset)
    obtain F G H where
      rw: "\<And>cat out. dash_analysis_body parse (Catalog cat) s2 s3 = Inr out \<Longrightarrow>
         adjusted_hours (dashboard_df out) = map F (dropna cat) \<and>
         jr_cost (dashboard_df out) = map G (dropna cat) \<and>
         mgr_cost (dashboard_df out) = map H (dropna cat)"
      by (rule body_rowwise[of parse s2 s3]) blast
    have perm: "mset (map K (dropna cat')) = mset (map K (dropna cat))"
      for K :: "catalog_row \<Rightarrow> num"
      using m by simp
    have ah: "adjusted_hours df = map F (dropna cat)"
      "adjusted_hours (dashboard_df out') = map F (dropna cat')"
      using rw[OF run] rw[OF run'] by (simp_all add: df_def)
    have jc: "jr_cost df = map G (dropna cat)"
      "jr_cost (dashboard_df out') = map G (dropna cat')"
      using rw[OF run] rw[OF run'] by (simp_all add: df_def)
    have mc: "mgr_cost df = map H (dropna cat)"
      "mgr_cost (dashboard_df out') = map H (dropna cat')"
      using rw[OF run] rw[OF run'] by (simp_all add: df_def)
    have 1: "mset (adjusted_hours (dashboard_df out')) = mset (adjusted_hours df)"
      unfolding ah by (rule perm)
    have 2: "mset (jr_cost (dashboard_df out')) = mset (jr_cost df)"
      unfolding jc by (rule perm)
    have 3: "mset (mgr_cost (dashboard_df out')) = mset (mgr_cost df)"
      unfolding mc by (rule perm)
    show "\<exists>out'. dash_analysis_body parse (Catalog cat') s2 s3 = Inr out'
        \<and> mset (adjusted_hours (dashboard_df out')) = mset (adjusted_hours df)
        \<and> mset (jr_cost (dashboard_df out')) = mset (jr_cost df)
        \<and> mset (mgr_cost (dashboard_df out')) = mset (mgr_cost df)"
      by (rule exI[of _ out'], intro conjI) (fact run' 1 2 3)+
  qed
  show ?thesis
    by (intro conjI) (fact t1 t2 t3 t4 t5)+
qed

theorem totals_skip_undefined_witness:
  "\<exists>out out'.
       dash_analysis_body plain_text (Catalog demo_catalog) (Effort demo_effort)
         (Rates demo_rates) = Inr out
     \<and> dash_analysis_body plain_text (Catalog (rev demo_catalog)) (Effort demo_effort)
         (Rates demo_rates) = Inr out'
     \<and> mset (rev demo_catalog) = mset demo_catalog
     \<and> adjusted_hours (dashboard_df out) = [Some 11, Some 37.7, None]
     \<and> 2 < length (adjusted_hours (dashboard_df out))
     \<and> status_factor (dashboard_df out) ! 2 = None
     \<and> jr_cost (dashboard_df out) ! 2 = None
     \<and> mgr_cost (dashboard_df out) ! 2 = None
     \<and> total_hours out = 11 + 37.7
     \<and> mset (adjusted_hours (dashboard_df out')) = {#Some 11, Some 37.7, None#}
     \<and> mset (jr_cost (dashboard_df out')) = {#Some 385, Some 1131, None#}
     \<and> mset (mgr_cost (dashboard_df out')) = {#Some 330, Some 2262, None#}"
proof -
  let ?run = "dash_analysis_body plain_text (Catalog demo_catalog) (Effort demo_effort)
      (Rates demo_rates)"
  note t = totals_skip_undefined[OF demo_run]
  note t1 = t[THEN conjunct1]
  note t4 = t[THEN conjunct2, THEN conjunct2, THEN conjunct2, THEN conjunct1, rule_format, of 2]
  note t5 = t[THEN conjunct2, THEN conjunct2, THEN conjunct2, THEN conjunct2, rule_format,
      of "rev demo_catalog"]
  have "mset (rev demo_catalog) = mset demo_catalog"
    by simp
  from t5[OF this] obtain out' where
    run': "dash_analysis_body plain_text (Catalog (rev demo_catalog)) (Effort demo_effort)
      (Rates demo_rates) = Inr out'"
    and a: "mset (adjusted_hours (dashboard_df out')) = {#Some 11, Some 37.7, None#}"
      "mset (jr_cost (dashboard_df out')) = {#Some 385, Some 1131, None#}"
      "mset (mgr_cost (dashboard_df out')) = {#Some 330, Some 2262, None#}"
    by auto
  have b: "jr_cost (dashboard_df (projr ?run)) ! 2 = None
      \<and> mgr_cost (dashboard_df (projr ?run)) ! 2 = None"
    using t4 by (simp add: demo_run)
  have c: "total_hours (projr ?run) = 11 + 37.7"
    using t1 by (simp add: demo_run)
  show ?thesis
    using a b c run' by (simp add: demo_run)
qed

subsection \<open>The page multiplier\<close>

lemma scale_get:
  "dict_get scale e 1 = (if 1 \<le> e \<and> e \<le> 10 then 1 + (of_int e - 1) / 20 else 1)"
proof (cases "1 \<le> e \<and> e \<le> 10")
  case True
  then have "e = 1 \<or> e = 2 \<or> e = 3 \<or> e = 4 \<or> e = 5 \<or> e = 6 \<or> e = 7 \<or> e = 8 \<or> e = 9 \<or> e = 10"
    by arith
  then show ?thesis
    by (elim disjE) (simp_all add: dict_get_def scale_def)
next
  case False
  then show ?thesis
    by (auto simp: dict_get_def scale_def)
qed

lemma page_multiplier_Fin:
  "page_multiplier (Fin x) =
     Inr (let e = min (py_int x) 10 in if 1 \<le> e \<and> e \<le> 10 then 1 + (of_int e - 1) / 20 else 1)"
  using scale_get by (simp add: page_multiplier_def Let_def)

lemma spec_page_factor_Some:
  "spec_page_factor (Some x) =
     (let e = min \<lfloor>x\<rfloor> 10 in if 1 \<le> e \<and> e \<le> 10 then 1 + (of_int e - 1) / 20 else 1)"
  by (simp add: spec_page_factor_def Let_def)

lemma py_int_floor_outside:
  assumes "x < 0"
  shows "py_int x \<le> 0" and "\<lfloor>x\<rfloor> < 0"
  using assms by (auto simp: py_int_def ceiling_le_iff floor_less_iff)

lemma page_multiplier_refines: "page_multiplier (Fin x) = Inr (spec_page_factor (Some x))"
proof (cases "0 \<le> x")
  case True
  then have "py_int x = \<lfloor>x\<rfloor>" by (simp add: py_int_def)
  then show ?thesis
    by (simp only: page_multiplier_Fin spec_page_factor_Some)
next
  case False
  then have "py_int x \<le> 0" "\<lfloor>x\<rfloor> < 0"
    using py_int_floor_outside[of x] by auto
  then have "\<not> 1 \<le> min (py_int x) 10" "\<not> 1 \<le> min \<lfloor>x\<rfloor> 10" by auto
  then show ?thesis
    by (simp add: page_multiplier_Fin spec_page_factor_Some Let_def)
qed

lemma page_multiplier_cat_eq: "page_multiplier_cat = page_multiplier"
  by (rule ext) (simp add: page_multiplier_cat_def page_multiplier_def)

lemma table_formula_mono:
  fixes a b :: int
  assumes "a \<le> b"
  shows "(if 1 \<le> a \<and> a \<le> 10 then 1 + (real_of_int a - 1) / 20 else 1)
       \<le> (if 1 \<le> b \<and> b \<le> 10 then 1 + (real_of_int b - 1) / 20 else 1) \<or> 10 < b"
  using assms by auto

lemma spec_page_factor_mono:
  assumes "p \<le> q"
  shows "spec_page_factor (Some p) \<le> spec_page_factor (Some q)"
proof -
  have "\<lfloor>p\<rfloor> \<le> \<lfloor>q\<rfloor>" using assms by (rule floor_mono)
  then have "min \<lfloor>p\<rfloor> 10 \<le> min \<lfloor>q\<rfloor> 10" by auto
  moreover have "\<not> 10 < min \<lfloor>q\<rfloor> 10" by simp
  ultimately show ?thesis
    using table_formula_mono[of "min \<lfloor>p\<rfloor> 10" "min \<lfloor>q\<rfloor> 10"]
    by (simp only: spec_page_factor_Some Let_def) blast
qed

lemma inf_clean: "clean_dashboard inf_text inf_catalog =
    Inr \<lparr>dashboard = [Some ''Sales''], tool = [Some ''Tableau''],
     conversion_level = [Some ''medium''], pages = [PInf], status = [Some ''active'']\<rparr>"
  by (simp add: inf_catalog_def clean_dashboard_def dropna_def rename_def str_lower_def
      str_strip_def astype_str_def to_numeric_def lower_def strip_def lower_char_def isspace_def
      capitals_def smalls_def numeric_dtype_def inf_text_def str_accessor_def)

lemma inf_levels:
  "map_effort_levels inf_text demo_effort [Some ''medium''] =
    Inr ([Some 10], [Some 70], [Some 30])"
  by (simp add: demo_effort_def map_effort_levels_def map_series_def str_lower_def
      str_strip_def lower_def strip_def lower_char_def isspace_def capitals_def smalls_def
      numeric_dtype_def inf_text_def str_accessor_def)

text \<open>
  Claim C2. A missing page count gives the factor 1.0. A finite page count \<open>p\<close> gives the
  factor of \<open>effective_pages = min(floor(p), 10)\<close>: exactly \<open>1.0 + 0.05 * (effective_pages - 1)\<close>
  for an integer from 1 to 10 and 1.0 for any other, zero and the negative ones included, with
  no error; the factor is non-decreasing in the page count, and 15 pages give 1.45. Both
  scripts' functions agree with this wording on every finite or missing page count. On an
  infinite page count, which \<^verbatim>\<open>pd.to_numeric\<close> reads from the cell text \<^verbatim>\<open>inf\<close>, the
  function raises \<^verbatim>\<open>OverflowError\<close> where the claim promises a factor, and the run of the
  script on a catalog with such a cell ends with that error.
\<close>

theorem page_multiplier_table:
  "page_multiplier NaN = Inr 1.0
   \<and> (\<forall>p. page_multiplier (Fin p) =
        Inr (let effective_pages = min \<lfloor>p\<rfloor> 10
             in if 1 \<le> effective_pages \<and> effective_pages \<le> 10
                then 1.0 + 0.05 * (of_int effective_pages - 1) else 1.0))
   \<and> page_multiplier NaN = Inr (spec_page_factor None)
   \<and> page_multiplier_cat NaN = Inr (spec_page_factor None)
   \<and> (\<forall>p. page_multiplier (Fin p) = Inr (spec_page_factor (Some p))
         \<and> page_multiplier_cat (Fin p) = Inr (spec_page_factor (Some p)))
   \<and> (\<forall>p q. p \<le> q \<longrightarrow> projr (page_multiplier (Fin p)) \<le> projr (page_multiplier (Fin q)))
   \<and> page_multiplier (Fin 15) = Inr 1.45
   \<and> page_multiplier (Fin 0) = Inr 1.0
   \<and> page_multiplier PInf = Inl OverflowError
   \<and> page_multiplier NInf = Inl OverflowError
   \<and> page_multiplier_cat PInf = Inl OverflowError
   \<and> page_multiplier_cat NInf = Inl OverflowError
   \<and> to_numeric inf_text (map available_data_pages inf_catalog) = [PInf]
   \<and> dash_analysis_body inf_text (Catalog inf_catalog) (Effort demo_effort) (Rates demo_rates)
       = Inl OverflowError
   \<and> dash_cat_analysis_body inf_text (Catalog inf_catalog) (Effort demo_effort)
       (Rates demo_rates) = Inl OverflowError"
proof -
  have 1: "page_multiplier NaN = Inr 1.0"
    by (simp add: page_multiplier_def)
  have 2: "\<forall>p. page_multiplier (Fin p) =
        Inr (let effective_pages = min \<lfloor>p\<rfloor> 10
             in if 1 \<le> effective_pages \<and> effective_pages \<le> 10
                then 1.0 + 0.05 * (of_int effective_pages - 1) else 1.0)"
    unfolding page_multiplier_refines by (simp add: spec_page_factor_def)
  have 3: "page_multiplier NaN = Inr (spec_page_factor None)"
    by (simp add: page_multiplier_def spec_page_factor_def)
  have 4: "page_multiplier_cat NaN = Inr (spec_page_factor None)"
    by (simp add: page_multiplier_cat_def spec_page_factor_def)
  have 5: "\<forall>p. page_multiplier (Fin p) = Inr (spec_page_factor (Some p))
         \<and> page_multiplier_cat (Fin p) = Inr (spec_page_factor (Some p))"
    by (simp add: page_multiplier_cat_eq page_multiplier_refines)
  have 6: "\<forall>p q. p \<le> q \<longrightarrow> projr (page_multiplier (Fin p)) \<le> projr (page_multiplier (Fin q))"
    unfolding page_multiplier_refines using spec_page_factor_mono by simp
  have 7: "page_multiplier (Fin 15) = Inr 1.45"
    unfolding page_multiplier_refines by (simp add: spec_page_factor_def)
  have 8: "page_multiplier (Fin 0) = Inr 1.0"
    unfolding page_multiplier_refines by (simp add: spec_page_factor_def)
  have 9: "page_multiplier PInf = Inl OverflowError"
    and 10: "page_multiplier NInf = Inl OverflowError"
    by (simp_all add: page_multiplier_def)
  have 11: "page_multiplier_cat PInf = Inl OverflowError"
    and 12: "page_multiplier_cat NInf = Inl OverflowError"
    by (simp_all add: page_multiplier_cat_def)
  have 13: "to_numeric inf_text (map available_data_pages inf_catalog) = [PInf]"
    by (simp add: to_numeric_def inf_text_def inf_catalog_def)
  have 14: "dash_analysis_body inf_text (Catalog inf_catalog) (Effort demo_effort)
      (Rates demo_rates) = Inl OverflowError"
    by (simp add: dash_analysis_body_def catalog_rows_def effort_rows_def inf_clean inf_levels 9)
  have 15: "dash_cat_analysis_body inf_text (Catalog inf_catalog) (Effort demo_effort)
      (Rates demo_rates) = Inl OverflowError"
    by (simp add: dash_cat_analysis_body_def catalog_rows_def effort_rows_def inf_clean
        inf_levels 11)
  show ?thesis
    by (intro conjI) (fact 1 2 3 4 5 6 7 8 9 10 11 12 13 14 15)+
qed

theorem page_multiplier_table_witness:
  "(2::real) \<le> 7 \<and> projr (page_multiplier (Fin 2)) \<le> projr (page_multiplier (Fin 7))
   \<and> page_multiplier (Fin 2) = Inr 1.05 \<and> page_multiplier (Fin 7) = Inr 1.3"
proof -
  have h: "(2::real) \<le> 7" by simp
  from page_multiplier_table
  have m: "\<forall>p q. p \<le> q \<longrightarrow> projr (page_multiplier (Fin p)) \<le> projr (page_multiplier (Fin q))"
    by (elim conjE)
  have v: "page_multiplier (Fin 2) = Inr 1.05" "page_multiplier (Fin 7) = Inr 1.3"
    by (simp_all add: page_multiplier_def py_int_def scale_def dict_get_def)
  from m h have "projr (page_multiplier (Fin 2)) \<le> projr (page_multiplier (Fin 7))"
    by blast
  with h v show ?thesis by simp
qed

subsection \<open>The scenario of the specification\<close>

lemma cat_body_eq:
  "dash_cat_analysis_body parse s1 s2 s3 =
     map_sum id
       (\<lambda>a. analysis.extend
               (a\<lparr>contractor_total_cost := mul (Some (total_hours a)) (jr_rate a)\<rparr>)
               (cat_analysis.fields (mul (Some (total_hours a)) (jr_rate a))))
       (dash_analysis_body parse s1 s2 s3)"
  by (auto simp: dash_cat_analysis_body_def dash_analysis_body_def Let_def bind_def
      page_multiplier_cat_eq analysis.extend_def cat_analysis.fields_def
      split: sum.splits prod.splits)

lemma cat_script_eq:
  "dash_cat_analysis parse fs =
     map_sum id
       (\<lambda>a. analysis.extend
               (a\<lparr>contractor_total_cost := mul (Some (total_hours a)) (jr_rate a)\<rparr>)
               (cat_analysis.fields (mul (Some (total_hours a)) (jr_rate a))))
       (dash_analysis parse fs)"
  by (simp add: dash_cat_analysis_def dash_analysis_def cat_body_eq bind_def split: sum.splits)

lemma demo_read:
  "read_excel demo_files ''dashboard_catalog.xlsx'' = Inr (Catalog demo_catalog)"
  "read_excel demo_files ''effort_levels.xlsx'' = Inr (Effort demo_effort)"
  "read_excel demo_files ''hourly_rates.xlsx'' = Inr (Rates demo_rates)"
  by (simp_all add: read_excel_def demo_files_def na_sheet_def demo_catalog_def demo_effort_def
      demo_rates_def na_catalog_row_def na_effort_row_def na_rate_row_def na_str_def na_cell_def
      na_values_def)

lemma demo_files_run:
  "dash_analysis parse demo_files =
     dash_analysis_body parse (Catalog demo_catalog) (Effort demo_effort) (Rates demo_rates)"
  by (simp add: dash_analysis_def demo_read)

lemma sales_read:
  "read_excel sales_files ''dashboard_catalog.xlsx'' =
     Inr (Catalog [\<lparr>dashboard_name = Some ''Sales'', data_visualization_tool = None,
                  estimated_conversion_level = Some ''medium'', available_data_pages = Number 3,
                  catalog_status = Some ''active''\<rparr>])"
  "read_excel sales_files ''effort_levels.xlsx'' =
     Inr (Effort [\<lparr>effort_conversion_level = Some ''medium'', conversion_rate_hrs = Some 10,
                 junior_analyst_efforts = Some 70, manager_efforts = Some 30\<rparr>])"
  "read_excel sales_files ''hourly_rates.xlsx'' =
     Inr (Rates [\<lparr>position = Some ''Junior Analyst'', hourly_rates = Some 50\<rparr>,
               \<lparr>position = Some ''Manager'', hourly_rates = Some 100\<rparr>])"
  by (simp_all add: read_excel_def sales_files_def na_sheet_def na_catalog_row_def
      na_effort_row_def na_rate_row_def na_str_def na_cell_def na_values_def)

lemma sales_clean:
  assumes "parse ''medium'' = NaN"
  shows "clean_dashboard parse
     [\<lparr>dashboard_name = Some ''Sales'', data_visualization_tool = None,
       estimated_conversion_level = Some ''medium'', available_data_pages = Number 3,
       catalog_status = Some ''active''\<rparr>] =
   Inr \<lparr>dashboard = [Some ''Sales''], tool = [None], conversion_level = [Some ''medium''],
    pages = [Fin 3], status = [Some ''active'']\<rparr>"
  using assms
  by (simp add: clean_dashboard_def dropna_def rename_def str_lower_def
      str_strip_def astype_str_def to_numeric_def lower_def strip_def lower_char_def isspace_def
      capitals_def smalls_def numeric_dtype_def str_accessor_def)

lemma sales_levels:
  assumes "parse ''medium'' = NaN"
  shows "map_effort_levels parse
     [\<lparr>effort_conversion_level = Some ''medium'', conversion_rate_hrs = Some 10,
       junior_analyst_efforts = Some 70, manager_efforts = Some 30\<rparr>] [Some ''medium''] =
   Inr ([Some 10], [Some 70], [Some 30])"
  using assms
  by (simp add: map_effort_levels_def map_series_def str_lower_def
      str_strip_def lower_def strip_def lower_char_def isspace_def capitals_def smalls_def
      numeric_dtype_def str_accessor_def)

lemma sales_page: "apply_col page_multiplier [Fin 3] = Inr [Some 1.1]"
  by (simp add: page_multiplier_def py_int_def scale_def dict_get_def)

lemma sales_status: "map_dict [Some ''active''] status_multiplier = [Some 1]"
  by (simp add: map_dict_def status_multiplier_def)

text \<open>
  Claim C5. On the scenario of the specification (one catalog row \<^verbatim>\<open>Sales\<close>, level
  \<^verbatim>\<open>medium\<close>, 3 pages, status \<^verbatim>\<open>active\<close>; effort 10 hours at 70 and 30 percent; rates
  50 and 100) the script computes page factor 1.10, status factor 1.0, adjusted hours 11.0,
  junior hours 7.7, manager hours 3.3, junior cost 385.0, manager cost 330.0 and total cost
  715.0. The values are exact in real arithmetic, hence within any tolerance. This holds for
  every reading of text as numbers that does not take the word \<^verbatim>\<open>medium\<close> for a number;
  a level column read as numbers would end the run at the first \<^verbatim>\<open>.str\<close> accessor.
\<close>

theorem sales_scenario:
  assumes "parse ''medium'' = NaN"
  shows "\<exists>out. dash_analysis parse sales_files = Inr out
     \<and> dashboard (dashboard_df out) = [Some ''Sales'']
     \<and> base_hours (dashboard_df out) = [Some 10]
     \<and> junior_pct (dashboard_df out) = [Some 70]
     \<and> manager_pct (dashboard_df out) = [Some 30]
     \<and> jr_rate out = Some 50 \<and> mgr_rate out = Some 100
     \<and> page_factor (dashboard_df out) = [Some 1.10]
     \<and> status_factor (dashboard_df out) = [Some 1.0]
     \<and> adjusted_hours (dashboard_df out) = [Some 11.0]
     \<and> jr_hours (dashboard_df out) = [Some 7.7]
     \<and> mgr_hours (dashboard_df out) = [Some 3.3]
     \<and> jr_cost (dashboard_df out) = [Some 385.0]
     \<and> mgr_cost (dashboard_df out) = [Some 330.0]
     \<and> total_cost (dashboard_df out) = [Some 715.0]"
  by (simp add: dash_analysis_def sales_read dash_analysis_body_def catalog_rows_def
      effort_rows_def rate_rows_def sales_clean[of parse, OF assms] sales_levels[of parse, OF assms] sales_page
      sales_status col_mul_def col_div_def col_scale_def col_add_def sum_skipna_def to_dict_def
      dict_get_def mul_def add_def div_by_def Let_def del: apply_col.simps)

theorem sales_scenario_witness:
  "plain_text ''medium'' = NaN
   \<and> (\<exists>out. dash_analysis plain_text sales_files = Inr out
        \<and> dashboard (dashboard_df out) = [Some ''Sales'']
        \<and> page_factor (dashboard_df out) = [Some 1.10]
        \<and> status_factor (dashboard_df out) = [Some 1.0]
        \<and> adjusted_hours (dashboard_df out) = [Some 11.0]
        \<and> jr_hours (dashboard_df out) = [Some 7.7]
        \<and> mgr_hours (dashboard_df out) = [Some 3.3]
        \<and> jr_cost (dashboard_df out) = [Some 385.0]
        \<and> mgr_cost (dashboard_df out) = [Some 330.0]
        \<and> total_cost (dashboard_df out) = [Some 715.0])"
proof -
  have h: "plain_text ''medium'' = NaN"
    by (simp add: plain_text_def)
  from sales_scenario[of plain_text, OF h] h show ?thesis
    by blast
qed

subsection \<open>The two scripts agree\<close>

lemma script_Inr:
  assumes "dash_analysis parse fs = Inr a"
  obtains s1 s2 s3 where "dash_analysis_body parse s1 s2 s3 = Inr a"
  using assms by (auto simp: dash_analysis_def bind_Inr_iff)

text \<open>
  Claim C6. On the same files both scripts end with the same error or both complete, and
  then with the same frame (every column of every row), the same rates and the same three
  totals. They differ in the single-rate scenario only: the total of hours times 43 in
  \<^verbatim>\<open>dash_analysis.py\<close>, times the junior analyst's rate in
  \<^verbatim>\<open>dash_cat_analysis.py\<close>.
\<close>

theorem scripts_agree:
  "(\<forall>e. dash_analysis parse fs = Inl e \<longleftrightarrow> dash_cat_analysis parse fs = Inl e)
   \<and> (\<forall>a. dash_analysis parse fs = Inr a \<longrightarrow>
        (\<exists>b. dash_cat_analysis parse fs = Inr b
           \<and> dashboard_df b = dashboard_df a
           \<and> jr_rate b = jr_rate a \<and> mgr_rate b = mgr_rate a
           \<and> total_hours b = total_hours a
           \<and> total_jr_cost b = total_jr_cost a
           \<and> total_mgr_cost b = total_mgr_cost a
           \<and> contractor_total_cost a = Some (total_hours a * 43)
           \<and> contractor_total_cost b = mul (Some (total_hours b)) (jr_rate b)))"
proof -
  have 1: "\<forall>e. dash_analysis parse fs = Inl e \<longleftrightarrow> dash_cat_analysis parse fs = Inl e"
    unfolding cat_script_eq by (cases "dash_analysis parse fs") simp_all
  have 2: "\<forall>a. dash_analysis parse fs = Inr a \<longrightarrow>
        (\<exists>b. dash_cat_analysis parse fs = Inr b
           \<and> dashboard_df b = dashboard_df a
           \<and> jr_rate b = jr_rate a \<and> mgr_rate b = mgr_rate a
           \<and> total_hours b = total_hours a
           \<and> total_jr_cost b = total_jr_cost a
           \<and> total_mgr_cost b = total_mgr_cost a
           \<and> contractor_total_cost a = Some (total_hours a * 43)
           \<and> contractor_total_cost b = mul (Some (total_hours b)) (jr_rate b))"
  proof (intro allI, rule impI)
    fix a
    assume run: "dash_analysis parse fs = Inr a"
    then obtain s1 s2 s3 where "dash_analysis_body parse s1 s2 s3 = Inr a"
      by (rule script_Inr)
    then have c: "contractor_total_cost a = Some (total_hours a * 43)"
      by (rule body_columns(12))
    show "\<exists>b. dash_cat_analysis parse fs = Inr b
           \<and> dashboard_df b = dashboard_df a
           \<and> jr_rate b = jr_rate a \<and> mgr_rate b = mgr_rate a
           \<and> total_hours b = total_hours a
           \<and> total_jr_cost b = total_jr_cost a
           \<and> total_mgr_cost b = total_mgr_cost a
           \<and> contractor_total_cost a = Some (total_hours a * 43)
           \<and> contractor_total_cost b = mul (Some (total_hours b)) (jr_rate b)"
      unfolding cat_script_eq run using c by (simp add: analysis.extend_def)
  qed
  show ?thesis
    by (intro conjI) (fact 1 2)+
qed

theorem scripts_agree_witness:
  "\<exists>a b. dash_analysis plain_text demo_files = Inr a
     \<and> dash_cat_analysis plain_text demo_files = Inr b
     \<and> dashboard_df b = dashboard_df a
     \<and> total_hours a = 48.7 \<and> total_hours b = 48.7
     \<and> contractor_total_cost a = Some (48.7 * 43)
     \<and> contractor_total_cost b = Some (48.7 * 50)"
proof -
  obtain a where run: "dash_analysis plain_text demo_files = Inr a"
    and a: "total_hours a = 48.7" "jr_rate a = Some 50"
      "contractor_total_cost a = Some (48.7 * 43)"
    by (simp add: demo_files_run demo_run)
  note t = scripts_agree[of plain_text demo_files, THEN conjunct2, rule_format, OF run]
  then obtain b where b: "dash_cat_analysis plain_text demo_files = Inr b"
    and eq: "dashboard_df b = dashboard_df a" "total_hours b = total_hours a"
      "jr_rate b = jr_rate a" "contractor_total_cost b = mul (Some (total_hours b)) (jr_rate b)"
    by blast
  have "total_hours b = 48.7" "contractor_total_cost b = Some (48.7 * 50)"
    using eq a by (simp_all add: mul_def)
  then show ?thesis
    using run b eq(1) a by simp
qed

subsection \<open>The row filter\<close>

lemma na_str_not_empty: "na_str c \<noteq> Some []"
  by (simp add: na_str_def na_values_def split: option.splits)

lemma read_catalog_names:
  assumes "read_excel fs name = Inr (Catalog rows)"
    and "r \<in> set rows"
  shows "dashboard_name r \<noteq> Some []"
proof -
  from assms(1) obtain raw where "fs name = Some (Catalog raw)"
    and rows: "rows = map na_catalog_row raw"
    by (auto simp: read_excel_def na_sheet_def split: option.splits sheet.splits)
  with assms(2) obtain r0 where "r = na_catalog_row r0" by auto
  then show ?thesis
    by (simp add: na_catalog_row_def na_str_not_empty)
qed

text \<open>
  Claim C7. The row filter keeps, in order, exactly the rows whose name and conversion level
  are both present, and the renaming passes their cells on unchanged under the canonical
  column names. Every row kept has a name and a level; on a catalog as
  \<^verbatim>\<open>read_excel\<close> loads it, where an empty text cell is a missing cell, the name of a row
  kept is a non-empty string.
\<close>

theorem row_filter:
  "dropna rows =
     filter (\<lambda>r. dashboard_name r \<noteq> None \<and> estimated_conversion_level r \<noteq> None) rows
   \<and> rename (dropna rows) =
       \<lparr>dashboard = map dashboard_name (dropna rows),
        tool = map data_visualization_tool (dropna rows),
        conversion_level = map estimated_conversion_level (dropna rows),
        pages = map available_data_pages (dropna rows),
        status = map catalog_status (dropna rows)\<rparr>
   \<and> (\<forall>r \<in> set (dropna rows).
         \<exists>n l. dashboard_name r = Some n \<and> estimated_conversion_level r = Some l)
   \<and> (\<forall>fs name. read_excel fs name = Inr (Catalog rows) \<longrightarrow>
         (\<forall>r \<in> set (dropna rows). \<exists>n. dashboard_name r = Some n \<and> n \<noteq> []))"
proof -
  have 1: "dropna rows =
      filter (\<lambda>r. dashboard_name r \<noteq> None \<and> estimated_conversion_level r \<noteq> None) rows"
    by (simp add: dropna_def)
  have 2: "rename (dropna rows) =
       \<lparr>dashboard = map dashboard_name (dropna rows),
        tool = map data_visualization_tool (dropna rows),
        conversion_level = map estimated_conversion_level (dropna rows),
        pages = map available_data_pages (dropna rows),
        status = map catalog_status (dropna rows)\<rparr>"
    by (simp add: rename_def)
  have 3: "\<forall>r \<in> set (dropna rows).
      \<exists>n l. dashboard_name r = Some n \<and> estimated_conversion_level r = Some l"
    by (auto simp: dropna_def)
  have 4: "\<forall>fs name. read_excel fs name = Inr (Catalog rows) \<longrightarrow>
      (\<forall>r \<in> set (dropna rows). \<exists>n. dashboard_name r = Some n \<and> n \<noteq> [])"
  proof (intro allI impI ballI)
    fix fs name r
    assume rd: "read_excel fs name = Inr (Catalog rows)" and r: "r \<in> set (dropna rows)"
    from r have "r \<in> set rows" and "dashboard_name r \<noteq> None"
      by (simp_all add: dropna_def)
    moreover from rd \<open>r \<in> set rows\<close> have "dashboard_name r \<noteq> Some []"
      by (rule read_catalog_names)
    ultimately show "\<exists>n. dashboard_name r = Some n \<and> n \<noteq> []"
      by (cases "dashboard_name r") simp_all
  qed
  show ?thesis
    by (intro conjI) (fact 1 2 3 4)+
qed

theorem row_filter_witness:
  "\<exists>rows. read_excel [''dashboard_catalog.xlsx'' \<mapsto> Catalog raw_catalog] ''dashboard_catalog.xlsx''
        = Inr (Catalog rows)
     \<and> length rows = 3
     \<and> map dashboard_name rows = [Some ''Sales'', None, Some ''Ops'']
     \<and> map dashboard_name (dropna rows) = [Some ''Sales'']
     \<and> dashboard (rename (dropna rows)) = [Some ''Sales'']
     \<and> (\<exists>r. r \<in> set (dropna rows))
     \<and> (\<exists>n. dashboard_name (hd (dropna rows)) = Some n \<and> n \<noteq> [])"
proof -
  let ?fs = "[''dashboard_catalog.xlsx'' \<mapsto> Catalog raw_catalog]"
  let ?rows = "map na_catalog_row raw_catalog"
  have rd: "read_excel ?fs ''dashboard_catalog.xlsx'' = Inr (Catalog ?rows)"
    by (simp add: read_excel_def na_sheet_def)
  have names: "map dashboard_name ?rows = [Some ''Sales'', None, Some ''Ops'']"
    by (simp add: raw_catalog_def na_catalog_row_def na_str_def na_values_def)
  have kept: "dropna ?rows = [na_catalog_row (hd raw_catalog)]"
    by (simp add: raw_catalog_def dropna_def na_catalog_row_def na_str_def na_cell_def
        na_values_def)
  have mem: "hd (dropna ?rows) \<in> set (dropna ?rows)"
    by (simp add: kept)
  note t = row_filter[of ?rows]
  note t4 = t[THEN conjunct2, THEN conjunct2, THEN conjunct2, rule_format, OF rd mem]
  have len: "length ?rows = 3"
    by (simp add: raw_catalog_def)
  have kept_names: "map dashboard_name (dropna ?rows) = [Some ''Sales'']"
    unfolding kept by (simp add: raw_catalog_def na_catalog_row_def na_str_def na_values_def)
  have renamed: "dashboard (rename (dropna ?rows)) = [Some ''Sales'']"
    using t[THEN conjunct2, THEN conjunct1] kept_names by simp
  have ex: "\<exists>r. r \<in> set (dropna ?rows)"
    using mem by blast
  show ?thesis
    by (rule exI[of _ ?rows], intro conjI) (fact rd len names kept_names renamed ex t4)+
qed

subsection \<open>The rate table\<close>

lemma rates_get:
  "dict_get (to_dict (map position rts) (map hourly_rates rts)) k (Some 0) =
     (case filter (\<lambda>r. position r = k) rts of
        [] \<Rightarrow> Some 0
      | x # xs \<Rightarrow> hourly_rates (last (x # xs)))"
  by (simp add: dict_get_def to_dict_map split: list.splits)

lemma rates_get_miss:
  assumes "k \<notin> position ` set rts"
  shows "dict_get (to_dict (map position rts) (map hourly_rates rts)) k (Some 0) = Some 0"
  using assms by (simp add: dict_get_def to_dict_miss)

lemma body_any_rates:
  assumes "dash_analysis_body parse s1 s2 (Rates rts) = Inr out"
  shows "\<exists>out'. dash_analysis_body parse s1 s2 (Rates rts') = Inr out'"
proof -
  from assms have "\<exists>out. dash_analysis_body parse s1 s2 (Rates rts) = Inr out" ..
  then show ?thesis
    unfolding body_succeeds by simp
qed


lemma add_zero [simp]: "add (Some 0) c = c" "add c (Some 0) = c"
  by (simp_all add: add_def split: option.splits)





text \<open>
  Claim C10. The rate of a role is the rate of the last row whose position cell equals the
  role's literal exactly, and 0 when no cell does: a cell that differs in case or in
  surrounding whitespace is not a match. The conversion levels and the statuses, on the
  other hand, are stripped and lowercased before they are matched, on both sides of the
  effort lookup.
\<close>

theorem rate_lookup_exact:
  assumes run: "dash_analysis_body parse (Catalog cat) (Effort eff) (Rates rts) = Inr out"
  defines "df \<equiv> dashboard_df out"
  shows "jr_rate out =
           (case filter (\<lambda>r. position r = Some ''Junior Analyst'') rts of
              [] \<Rightarrow> Some 0
            | r # rs \<Rightarrow> hourly_rates (last (r # rs)))
       \<and> mgr_rate out =
           (case filter (\<lambda>r. position r = Some ''Manager'') rts of
              [] \<Rightarrow> Some 0
            | r # rs \<Rightarrow> hourly_rates (last (r # rs)))
       \<and> ((\<forall>r \<in> set rts. position r \<noteq> Some ''Junior Analyst'') \<longrightarrow> jr_rate out = Some 0)
       \<and> ((\<forall>r \<in> set rts. position r \<noteq> Some ''Manager'') \<longrightarrow> mgr_rate out = Some 0)
       \<and> conversion_level df =
           map (\<lambda>r. map_option (\<lambda>s. lower (strip s)) (estimated_conversion_level r)) (dropna cat)
       \<and> status df =
           map (\<lambda>r. Some (lower (strip (case catalog_status r of None \<Rightarrow> ''nan'' | Some s \<Rightarrow> s))))
             (dropna cat)
       \<and> base_hours df =
           map (\<lambda>k. case map_of
                      (zip (map (\<lambda>e. map_option (\<lambda>s. lower (strip s)) (effort_conversion_level e)) eff)
                           (map conversion_rate_hrs eff)) k of
                      None \<Rightarrow> None | Some v \<Rightarrow> v)
             (conversion_level df)"
proof -
  note b = body_base_columns[OF run, folded df_def] and r = body_rates[OF run]
  have 1: "jr_rate out =
           (case filter (\<lambda>r. position r = Some ''Junior Analyst'') rts of
              [] \<Rightarrow> Some 0
            | r # rs \<Rightarrow> hourly_rates (last (r # rs)))"
    unfolding r(1) by (rule rates_get)
  have 2: "mgr_rate out =
           (case filter (\<lambda>r. position r = Some ''Manager'') rts of
              [] \<Rightarrow> Some 0
            | r # rs \<Rightarrow> hourly_rates (last (r # rs)))"
    unfolding r(2) by (rule rates_get)
  have 3: "(\<forall>r \<in> set rts. position r \<noteq> Some ''Junior Analyst'') \<longrightarrow> jr_rate out = Some 0"
  proof
    assume "\<forall>r \<in> set rts. position r \<noteq> Some ''Junior Analyst''"
    then have "Some ''Junior Analyst'' \<notin> position ` set rts" by auto
    then show "jr_rate out = Some 0"
      unfolding r(1) by (rule rates_get_miss)
  qed
  have 4: "(\<forall>r \<in> set rts. position r \<noteq> Some ''Manager'') \<longrightarrow> mgr_rate out = Some 0"
  proof
    assume "\<forall>r \<in> set rts. position r \<noteq> Some ''Manager''"
    then have "Some ''Manager'' \<notin> position ` set rts" by auto
    then show "mgr_rate out = Some 0"
      unfolding r(2) by (rule rates_get_miss)
  qed
  have 5: "conversion_level df =
      map (\<lambda>r. map_option (\<lambda>s. lower (strip s)) (estimated_conversion_level r)) (dropna cat)"
    unfolding b(4) by (simp add: option.map_comp o_def)
  have 6: "status df =
      map (\<lambda>r. Some (lower (strip (case catalog_status r of None \<Rightarrow> ''nan'' | Some s \<Rightarrow> s))))
        (dropna cat)"
    unfolding b(6) by (auto split: option.splits)
  have 7: "base_hours df =
      map (\<lambda>k. case map_of
                 (zip (map (\<lambda>e. map_option (\<lambda>s. lower (strip s)) (effort_conversion_level e)) eff)
                      (map conversion_rate_hrs eff)) k of
                 None \<Rightarrow> None | Some v \<Rightarrow> v)
        (conversion_level df)"
    unfolding b(7) by (simp add: str_lower_def str_strip_def option.map_comp o_def)
  show ?thesis
    by (intro conjI) (fact 1 2 3 4 5 6 7)+
qed

theorem rate_lookup_exact_witness:
  "\<exists>out. dash_analysis_body plain_text (Catalog demo_catalog) (Effort demo_effort)
            (Rates lowercase_rates) = Inr out
     \<and> map position lowercase_rates = [Some ''junior analyst'', Some ''Manager '']
     \<and> lower (strip ''junior analyst'') = lower (strip ''Junior Analyst'')
     \<and> lower (strip ''Manager '') = lower (strip ''Manager'')
     \<and> jr_rate out = Some 0 \<and> mgr_rate out = Some 0
     \<and> map estimated_conversion_level (dropna demo_catalog)
         = [Some ''medium'', Some '' High '', Some ''low'']
     \<and> map effort_conversion_level demo_effort = [Some ''Medium'', Some ''high'', Some ''low'']
     \<and> conversion_level (dashboard_df out) = [Some ''medium'', Some ''high'', Some ''low'']
     \<and> base_hours (dashboard_df out) = [Some 10, Some 20, Some 5]"
proof -
  obtain out where run: "dash_analysis_body plain_text (Catalog demo_catalog) (Effort demo_effort)
      (Rates lowercase_rates) = Inr out"
    using body_any_rates[OF demo_run] by blast
  note t = rate_lookup_exact[OF run]
  have pos: "map position lowercase_rates = [Some ''junior analyst'', Some ''Manager '']"
    by (simp add: lowercase_rates_def)
  have n1: "lower (strip ''junior analyst'') = lower (strip ''Junior Analyst'')"
    and n2: "lower (strip ''Manager '') = lower (strip ''Manager'')"
    by (simp_all add: lower_def strip_def lower_char_def isspace_def capitals_def smalls_def)
  have j: "jr_rate out = Some 0"
    using t[THEN conjunct2, THEN conjunct2, THEN conjunct1] by (simp add: lowercase_rates_def)
  have m: "mgr_rate out = Some 0"
    using t[THEN conjunct2, THEN conjunct2, THEN conjunct2, THEN conjunct1]
    by (simp add: lowercase_rates_def)
  have lv: "map estimated_conversion_level (dropna demo_catalog)
      = [Some ''medium'', Some '' High '', Some ''low'']"
    by (simp add: demo_catalog_def dropna_def)
  have ef: "map effort_conversion_level demo_effort = [Some ''Medium'', Some ''high'', Some ''low'']"
    by (simp add: demo_effort_def)
  have cl: "conversion_level (dashboard_df out) = [Some ''medium'', Some ''high'', Some ''low'']"
    unfolding body_base_columns(4)[OF run]
    by (simp add: demo_catalog_def dropna_def lower_def strip_def lower_char_def isspace_def
        capitals_def smalls_def)
  have bh: "base_hours (dashboard_df out) = [Some 10, Some 20, Some 5]"
    unfolding t[THEN conjunct2, THEN conjunct2, THEN conjunct2, THEN conjunct2, THEN conjunct2,
        THEN conjunct2] cl
    by (simp add: demo_effort_def lower_def strip_def lower_char_def isspace_def capitals_def
        smalls_def)
  show ?thesis
    by (rule exI[of _ out], intro conjI) (fact run pos n1 n2 j m lv ef cl bh)+
qed
end
